theory Spec2Isabelle
  imports Main "HOL-Library.Word"
begin

unbundle bit_operations_syntax

section \<open>Machine types and C strings\<close>

type_synonym u1 = "8 word"
type_synonym u2 = "16 word"
type_synonym u4 = "32 word"

text \<open>
  A C string is the list of the characters before its terminating NUL. The C standard
  fixes only the sign of what \<open>strcmp\<close> returns, so the model returns \<open>-1\<close>, \<open>0\<close> or \<open>1\<close>;
  characters compare as unsigned bytes.
\<close>

fun strcmp :: "string \<Rightarrow> string \<Rightarrow> int" where
  "strcmp [] [] = 0"
| "strcmp [] (y # ys) = - 1"
| "strcmp (x # xs) [] = 1"
| "strcmp (x # xs) (y # ys) =
     (if x = y then strcmp xs ys
      else if (of_char x :: nat) < of_char y then - 1 else 1)"

definition strncmp :: "string \<Rightarrow> string \<Rightarrow> nat \<Rightarrow> int" where
  "strncmp a b n = strcmp (take n a) (take n b)"

definition strlen :: "string \<Rightarrow> nat" where
  "strlen s = length s"

text \<open>\<open>strrchr s c\<close>: the position of the last \<open>c\<close> in \<open>s\<close>, \<open>None\<close> for the NULL result.\<close>

fun strrchr :: "string \<Rightarrow> char \<Rightarrow> nat option" where
  "strrchr [] c = None"
| "strrchr (x # xs) c =
     (case strrchr xs c of
        Some i \<Rightarrow> Some (Suc i)
      | None \<Rightarrow> if x = c then Some 0 else None)"

section \<open>Debugger.c: local-variable slots\<close>

definition kSlot0Sub :: int where
  "kSlot0Sub = 1000"

text \<open>The two fields of \<open>Method\<close> that \<open>untweakSlot\<close> reads (both \<open>u2\<close>).\<close>

record Method =
  registersSize :: u2
  insSize :: u2

definition tweakSlot :: "int \<Rightarrow> string \<Rightarrow> int" where
  "tweakSlot slot name =
     (if strcmp name ''this'' = 0 then 0
      else if slot = 0 then kSlot0Sub
      else slot)"

text \<open>
  \<open>untweakSlot\<close> takes the method of the frame's save area
  (\<open>SAVEAREA_FROM_FP(framePtr)->method\<close>); the \<open>u2\<close> fields are promoted to \<open>int\<close>
  before the subtraction.
\<close>

definition untweakSlot :: "int \<Rightarrow> Method \<Rightarrow> int" where
  "untweakSlot slot method =
     (if slot = kSlot0Sub then 0
      else if slot = 0 then uint (registersSize method) - uint (insSize method)
      else slot)"

section \<open>Debugger.c: class information\<close>

text \<open>
  Modelled from the spec: the class states (\<open>enum ClassStatus\<close>) and the class object are
  declared in the VM's object header, which is not among the sources; the debugger reads
  the descriptor, the state and whether the class is an interface.
\<close>

datatype ClassStatus =
    CLASS_ERROR | CLASS_NOTREADY | CLASS_LOADED | CLASS_PREPARED | CLASS_RESOLVED
  | CLASS_VERIFYING | CLASS_VERIFIED | CLASS_INITIALIZING | CLASS_INITIALIZED

record ClassObject =
  descriptor :: string
  status :: ClassStatus
  isInterfaceClass :: bool

text \<open>
  Modelled from the spec: a class counts as verified from the state \<open>CLASS_VERIFIED\<close> on
  (the states are listed in the order a class goes through them).
\<close>

fun dvmIsClassVerified :: "ClassStatus \<Rightarrow> bool" where
  "dvmIsClassVerified CLASS_VERIFIED = True"
| "dvmIsClassVerified CLASS_INITIALIZING = True"
| "dvmIsClassVerified CLASS_INITIALIZED = True"
| "dvmIsClassVerified _ = False"

text \<open>
  Modelled from the spec: the wire constants of the class status bits and of the type
  tags belong to the debugger protocol's header, which is not among the sources.
\<close>

definition CS_VERIFIED :: u4 where "CS_VERIFIED = 1"
definition CS_PREPARED :: u4 where "CS_PREPARED = 2"
definition CS_INITIALIZED :: u4 where "CS_INITIALIZED = 4"
definition CS_ERROR :: u4 where "CS_ERROR = 8"

definition TT_CLASS :: u1 where "TT_CLASS = 1"
definition TT_INTERFACE :: u1 where "TT_INTERFACE = 2"
definition TT_ARRAY :: u1 where "TT_ARRAY = 3"

text \<open>
  \<open>dvmDbgGetClassInfo\<close> writes \<open>*pTypeTag\<close> and \<open>*pStatus\<close>; the model returns the pair.
  \<open>descriptor[0]\<close> of an empty string is the terminating NUL.
\<close>

definition dvmDbgGetClassInfo :: "ClassObject \<Rightarrow> u1 \<times> u4" where
  "dvmDbgGetClassInfo clazz =
     (if (case descriptor clazz of [] \<Rightarrow> False | c # _ \<Rightarrow> c = CHR ''['')
      then (TT_ARRAY, CS_VERIFIED OR CS_PREPARED)
      else
        (if isInterfaceClass clazz then TT_INTERFACE else TT_CLASS,
         if status clazz = CLASS_ERROR then CS_ERROR
         else CS_VERIFIED OR CS_PREPARED OR CS_INITIALIZED))"

section \<open>Debugger.c: method invocation in a stopped thread\<close>

datatype JdwpError = ERR_NONE | ERR_INVALID_THREAD | ERR_THREAD_SUSPENDED | ERR_OTHER nat

text \<open>
  Objects, classes and methods are 32-bit addresses. An object or class identifier is 64
  bits wide: \<open>registerObject\<close> puts the address in the low word and the registry type
  (\<open>0xc1\<close> for objects) in the high word. The conversions back cast the identifier to
  \<open>u4\<close>, which keeps the low word; a method identifier is the address of the method.
\<close>

type_synonym ObjectId = "64 word"
type_synonym RefTypeId = "64 word"
type_synonym MethodId = u4

definition objectIdToObject :: "ObjectId \<Rightarrow> u4" where
  "objectIdToObject ident = ucast ident"

definition refTypeIdToClassObject :: "RefTypeId \<Rightarrow> u4" where
  "refTypeIdToClassObject ident = ucast ident"

definition methodIdToMethod :: "RefTypeId \<Rightarrow> MethodId \<Rightarrow> u4" where
  "methodIdToMethod refTypeId ident = ucast ident"

record DebugInvokeReq =
  req_ready :: bool
  req_invokeNeeded :: bool
  req_obj :: u4
  req_thread :: u4
  req_clazz :: u4
  req_method :: u4
  req_numArgs :: u4
  req_argArray :: "ObjectId list"
  req_options :: u4
  req_err :: JdwpError

record Thread =
  threadObj :: u4
  suspendCount :: int
  invokeReq :: DebugInvokeReq

text \<open>The scan of \<open>gDvm.threadList\<close>: the position of the first thread of that object.\<close>

fun threadObjToThread :: "Thread list \<Rightarrow> u4 \<Rightarrow> nat option" where
  "threadObjToThread [] obj = None"
| "threadObjToThread (t # ts) obj =
     (if threadObj t = obj then Some 0
      else map_option Suc (threadObjToThread ts obj))"

text \<open>
  \<open>dvmDbgInvokeMethod\<close> on the thread list. Once the request is posted, the caller resumes
  the target thread and sleeps until that thread has run the method and suspended itself
  again: \<open>handoff\<close> stands for everything the other threads do meanwhile, and takes the
  thread list with the posted request to the thread list the caller finds on waking up.
  The result is the error code and the thread list.
\<close>

definition dvmDbgInvokeMethod ::
  "(nat \<Rightarrow> Thread list \<Rightarrow> Thread list) \<Rightarrow> Thread list \<Rightarrow> ObjectId \<Rightarrow> ObjectId \<Rightarrow>
     RefTypeId \<Rightarrow> MethodId \<Rightarrow> u4 \<Rightarrow> ObjectId list \<Rightarrow> u4 \<Rightarrow> JdwpError \<times> Thread list" where
  "dvmDbgInvokeMethod handoff threadList threadId objectId classId methodId numArgs
       argArray options =
     (case threadObjToThread threadList (objectIdToObject threadId) of
        None \<Rightarrow> (ERR_INVALID_THREAD, threadList)
      | Some i \<Rightarrow>
          (let targetThread = threadList ! i in
           if \<not> req_ready (invokeReq targetThread) then (ERR_INVALID_THREAD, threadList)
           else if suspendCount targetThread > 1 then (ERR_THREAD_SUSPENDED, threadList)
           else
             (let posted = targetThread
                   \<lparr>invokeReq := (invokeReq targetThread)
                      \<lparr>req_obj := objectIdToObject objectId,
                       req_thread := objectIdToObject threadId,
                       req_clazz := refTypeIdToClassObject classId,
                       req_method := methodIdToMethod classId methodId,
                       req_numArgs := numArgs,
                       req_argArray := argArray,
                       req_options := options,
                       req_invokeNeeded := True\<rparr>\<rparr>;
                  threadList' = handoff i (threadList[i := posted])
              in (req_err (invokeReq (threadList' ! i)), threadList'))))"

section \<open>ExpatParser.cpp: element names\<close>

record ExpatElementName =
  mUri :: string
  mLocalName :: string
  mPrefix :: string

definition matchesQName :: "ExpatElementName \<Rightarrow> string \<Rightarrow> bool" where
  "matchesQName e qName =
     (case strrchr qName CHR '':'' of
        None \<Rightarrow> strcmp qName (mLocalName e) = 0
      | Some lastColon \<Rightarrow>
          if mPrefix e = [] then strcmp qName (mLocalName e) = 0
          else
            (let prefixLength = lastColon
             in strlen (mPrefix e) = prefixLength
                \<and> strncmp qName (mPrefix e) prefixLength = 0
                \<and> strcmp (drop (Suc lastColon) qName) (mLocalName e) = 0))"

section \<open>ExpatParser.cpp: the name stack and the element callbacks\<close>

text \<open>A \<open>jstring\<close> is a reference to a Java string; \<open>None\<close> is the NULL reference.\<close>

type_synonym jstring = "nat option"

record StringStack =
  ss_array :: "jstring list"
  ss_capacity :: nat
  ss_size :: nat

text \<open>What the Java parser object is called with (\<open>env->CallVoidMethod\<close>).\<close>

datatype Call =
    StartElementCall jstring jstring jstring nat
  | EndElementCall jstring jstring jstring

text \<open>
  The parsing context, with the two parts of the JNI environment the element callbacks
  depend on: whether an exception is pending (\<open>env->ExceptionCheck()\<close>) and the calls made
  to the Java parser so far.
\<close>

record ParsingContext =
  attributes :: "(string \<times> string) list option"
  attributeCount :: int
  processNamespaces :: bool
  stringStack :: StringStack
  exceptionPending :: bool
  calls :: "Call list"

text \<open>
  What lies outside the two callbacks: the interned strings that the element name yields
  (\<open>e.uri()\<close>, \<open>e.localName()\<close>, \<open>e.qName()\<close>) and whether interning them raises, the shared
  empty string, whether \<open>realloc\<close> to a given capacity succeeds, and whether the Java
  method raises, given the calls made up to and including this one.
\<close>

record Outside =
  e_uri :: "string \<Rightarrow> jstring"
  e_localName :: "string \<Rightarrow> jstring"
  e_qName :: "string \<Rightarrow> jstring"
  internRaises :: "string \<Rightarrow> bool"
  emptyString :: jstring
  reallocSucceeds :: "nat \<Rightarrow> bool"
  methodRaises :: "Call list \<Rightarrow> bool"

text \<open>
  \<open>realloc\<close> keeps the old entries and leaves the new ones uninitialised (here NULL); when it
  fails, the array pointer is overwritten with NULL (the empty list) and
  \<open>OutOfMemoryError\<close> is thrown.
\<close>

definition stringStackPush :: "Outside \<Rightarrow> ParsingContext \<Rightarrow> jstring \<Rightarrow> ParsingContext" where
  "stringStackPush out parsingContext s =
     (let st = stringStack parsingContext in
      if ss_size st = ss_capacity st then
        (let newCapacity = ss_capacity st * 2 in
         if reallocSucceeds out newCapacity then
           parsingContext
             \<lparr>stringStack :=
                \<lparr>ss_array = (take newCapacity (ss_array st @ replicate newCapacity None))
                              [ss_size st := s],
                 ss_capacity = newCapacity,
                 ss_size = Suc (ss_size st)\<rparr>\<rparr>
         else parsingContext\<lparr>stringStack := st\<lparr>ss_array := []\<rparr>, exceptionPending := True\<rparr>)
      else
        parsingContext
          \<lparr>stringStack := st\<lparr>ss_array := (ss_array st)[ss_size st := s],
                               ss_size := Suc (ss_size st)\<rparr>\<rparr>)"

definition stringStackPop :: "ParsingContext \<Rightarrow> jstring \<times> ParsingContext" where
  "stringStackPop parsingContext =
     (let st = stringStack parsingContext in
      if ss_size st = 0 then (None, parsingContext)
      else (ss_array st ! (ss_size st - 1),
            parsingContext\<lparr>stringStack := st\<lparr>ss_size := ss_size st - 1\<rparr>\<rparr>))"

text \<open>\<open>env->CallVoidMethod\<close>: the call is recorded, and the Java method may raise.\<close>

definition CallVoidMethod :: "Outside \<Rightarrow> ParsingContext \<Rightarrow> Call \<Rightarrow> ParsingContext" where
  "CallVoidMethod out parsingContext c =
     (let cs = calls parsingContext @ [c] in
      parsingContext\<lparr>calls := cs,
                      exceptionPending := exceptionPending parsingContext \<or> methodRaises out cs\<rparr>)"

definition startElement ::
  "Outside \<Rightarrow> ParsingContext \<Rightarrow> string \<Rightarrow> (string \<times> string) list \<Rightarrow> ParsingContext" where
  "startElement out parsingContext elementName attrs =
     (if exceptionPending parsingContext then parsingContext
      else
        (let count = length attrs;
             pc0 = parsingContext\<lparr>attributes := Some attrs, attributeCount := int count\<rparr>;
             pc1 = pc0\<lparr>exceptionPending := internRaises out elementName\<rparr>;
             uri = (if processNamespaces pc1 then e_uri out elementName else emptyString out);
             localName = (if processNamespaces pc1 then e_localName out elementName
                          else emptyString out);
             qName = e_qName out elementName;
             pc2 = stringStackPush out pc1 qName;
             pc3 = stringStackPush out pc2 uri;
             pc4 = stringStackPush out pc3 localName;
             pc5 = CallVoidMethod out pc4 (StartElementCall uri localName qName count)
         in pc5\<lparr>attributes := None, attributeCount := - 1\<rparr>))"

definition endElement :: "Outside \<Rightarrow> ParsingContext \<Rightarrow> string \<Rightarrow> ParsingContext" where
  "endElement out parsingContext elementName =
     (if exceptionPending parsingContext then parsingContext
      else
        (let (localName, pc1) = stringStackPop parsingContext;
             (uri, pc2) = stringStackPop pc1;
             (qName, pc3) = stringStackPop pc2
         in CallVoidMethod out pc3 (EndElementCall uri localName qName)))"

text \<open>The callbacks that the XML engine makes on one parsing context, in order.\<close>

datatype Callback = StartElement string "(string \<times> string) list" | EndElement string

fun callback :: "Outside \<Rightarrow> ParsingContext \<Rightarrow> Callback \<Rightarrow> ParsingContext" where
  "callback out pc (StartElement elementName attrs) = startElement out pc elementName attrs"
| "callback out pc (EndElement elementName) = endElement out pc elementName"

definition callbacks :: "Outside \<Rightarrow> ParsingContext \<Rightarrow> Callback list \<Rightarrow> ParsingContext" where
  "callbacks out pc cbs = foldl (callback out) pc cbs"







text \<open>
  An example thread list: a thread that is not stopped at an event, and a thread that is,
  but was suspended twice.
\<close>

definition exampleReq :: DebugInvokeReq where
  "exampleReq =
     \<lparr>req_ready = False, req_invokeNeeded = False, req_obj = 0, req_thread = 0,
      req_clazz = 0, req_method = 0, req_numArgs = 0, req_argArray = [], req_options = 0,
      req_err = ERR_NONE\<rparr>"

definition exampleThreads :: "Thread list" where
  "exampleThreads =
     [\<lparr>threadObj = 0x1000, suspendCount = 1, invokeReq = exampleReq\<rparr>,
      \<lparr>threadObj = 0x2000, suspendCount = 2,
       invokeReq = exampleReq\<lparr>req_ready := True\<rparr>\<rparr>]"

section \<open>DexSwapVerify.c: results, memory and LEB128\<close>

text \<open>
  Why a check gave up: \<open>Failed\<close> carries the diagnostic that the code logs before it
  returns NULL or false. \<open>ReadOutsideBuffer\<close> is not a verdict of the code: it marks a read
  at or beyond the end of the mapped buffer, where C gives no meaning to the program.
\<close>

datatype failure = ReadOutsideBuffer | Failed string

abbreviation "BogusUtf16Size \<equiv> Failed ''Bogus utf16_size''"
abbreviation "StringBeyondEndOfFile \<equiv> Failed ''String data would go beyond end-of-file''"
abbreviation "StringShorterThanIndicated \<equiv> Failed ''String shorter than indicated utf16_size''"
abbreviation "IllegalStartByte \<equiv> Failed ''Illegal start byte''"
abbreviation "IllegalContinuationByte \<equiv> Failed ''Illegal continuation byte''"
abbreviation "IllegalRepresentation \<equiv> Failed ''Illegal representation for value''"
abbreviation "StringLongerThanIndicated \<equiv> Failed ''String longer than indicated utf16_size''"

definition bindE :: "failure + 'a \<Rightarrow> ('a \<Rightarrow> failure + 'b) \<Rightarrow> failure + 'b" where
  "bindE m f = (case m of Inl e \<Rightarrow> Inl e | Inr x \<Rightarrow> f x)"

text \<open>
  The mapped buffer is the list of its bytes, and a pointer into it is the offset from
  its start (\<open>fileStart\<close>), so \<open>fileEnd\<close> is its length. \<open>readU1\<close> is \<open>*ptr\<close>.
\<close>

definition readU1 :: "u1 list \<Rightarrow> nat \<Rightarrow> failure + u1" where
  "readU1 mem p = (if p < length mem then Inr (mem ! p) else Inl ReadOutsideBuffer)"

text \<open>
  Modelled from the spec: the LEB128 readers belong to the library's LEB128 header, which
  is not among the sources. Seven payload bits per byte, the high bit continues, at most
  five bytes are read and the high bits of the fifth are not masked. The verifying
  reader clears \<open>okay\<close> when the stream pointer has moved beyond the limit, or when five
  bytes were read and the fifth is above \<open>0x0f\<close>. The result is the value, the new stream
  pointer and \<open>okay\<close>.
\<close>

definition readUnsignedLeb128 :: "u1 list \<Rightarrow> nat \<Rightarrow> failure + (u4 \<times> nat)" where
  "readUnsignedLeb128 mem p =
     bindE (readU1 mem p) (\<lambda>b0.
       if b0 \<le> 0x7f then Inr (ucast b0, p + 1)
       else bindE (readU1 mem (p + 1)) (\<lambda>b1.
         let r1 = (ucast b0 AND 0x7f) OR push_bit 7 (ucast b1 AND 0x7f) in
         if b1 \<le> 0x7f then Inr (r1, p + 2)
         else bindE (readU1 mem (p + 2)) (\<lambda>b2.
           let r2 = r1 OR push_bit 14 (ucast b2 AND 0x7f) in
           if b2 \<le> 0x7f then Inr (r2, p + 3)
           else bindE (readU1 mem (p + 3)) (\<lambda>b3.
             let r3 = r2 OR push_bit 21 (ucast b3 AND 0x7f) in
             if b3 \<le> 0x7f then Inr (r3, p + 4)
             else bindE (readU1 mem (p + 4)) (\<lambda>b4.
               Inr (r3 OR push_bit 28 (ucast b4), p + 5))))))"

definition readAndVerifyUnsignedLeb128 ::
  "u1 list \<Rightarrow> nat \<Rightarrow> nat \<Rightarrow> failure + (u4 \<times> nat \<times> bool)" where
  "readAndVerifyUnsignedLeb128 mem p limit =
     bindE (readUnsignedLeb128 mem p) (\<lambda>(result, p').
       Inr (result, p', \<not> (limit < p' \<or> (p' - p = 5 \<and> 0x0f < mem ! (p + 4)))))"

text \<open>The signed reader sign-extends from the last payload bit read.\<close>

definition signExtend :: "nat \<Rightarrow> u4 \<Rightarrow> u4" where
  "signExtend n r = signed_drop_bit n (push_bit n r)"

definition readSignedLeb128 :: "u1 list \<Rightarrow> nat \<Rightarrow> failure + (u4 \<times> nat)" where
  "readSignedLeb128 mem p =
     bindE (readU1 mem p) (\<lambda>b0.
       if b0 \<le> 0x7f then Inr (signExtend 25 (ucast b0), p + 1)
       else bindE (readU1 mem (p + 1)) (\<lambda>b1.
         let r1 = (ucast b0 AND 0x7f) OR push_bit 7 (ucast b1 AND 0x7f) in
         if b1 \<le> 0x7f then Inr (signExtend 18 r1, p + 2)
         else bindE (readU1 mem (p + 2)) (\<lambda>b2.
           let r2 = r1 OR push_bit 14 (ucast b2 AND 0x7f) in
           if b2 \<le> 0x7f then Inr (signExtend 11 r2, p + 3)
           else bindE (readU1 mem (p + 3)) (\<lambda>b3.
             let r3 = r2 OR push_bit 21 (ucast b3 AND 0x7f) in
             if b3 \<le> 0x7f then Inr (signExtend 4 r3, p + 4)
             else bindE (readU1 mem (p + 4)) (\<lambda>b4.
               Inr (r3 OR push_bit 28 (ucast b4), p + 5))))))"

definition readAndVerifySignedLeb128 ::
  "u1 list \<Rightarrow> nat \<Rightarrow> nat \<Rightarrow> failure + (u4 \<times> nat \<times> bool)" where
  "readAndVerifySignedLeb128 mem p limit =
     bindE (readSignedLeb128 mem p) (\<lambda>(result, p').
       Inr (result, p', \<not> (limit < p' \<or> (p' - p = 5 \<and> 0x0f < mem ! (p + 4)))))"

section \<open>DexSwapVerify.c: string data items\<close>

text \<open>
  The loop of \<open>intraVerifyStringDataItem\<close> over the declared number of UTF-16 units:
  \<open>stringDataUnits mem n data\<close> checks \<open>n\<close> units from \<open>data\<close> on and gives the pointer behind
  them. Only the first byte of a unit is guarded by the comparison with \<open>fileEnd\<close>.
\<close>

fun stringDataUnits :: "u1 list \<Rightarrow> nat \<Rightarrow> nat \<Rightarrow> failure + nat" where
  "stringDataUnits mem 0 data = Inr data"
| "stringDataUnits mem (Suc n) data =
     (if length mem \<le> data then Inl StringBeyondEndOfFile
      else
        (let byte1 = mem ! data; high = drop_bit 4 byte1 in
         if high = 0x00 then
           (if byte1 = 0 then Inl StringShorterThanIndicated
            else stringDataUnits mem n (data + 1))
         else if high \<in> {0x01, 0x02, 0x03, 0x04, 0x05, 0x06, 0x07} then
           stringDataUnits mem n (data + 1)
         else if high \<in> {0x08, 0x09, 0x0a, 0x0b, 0x0f} then Inl IllegalStartByte
         else if high = 0x0e then
           bindE (readU1 mem (data + 1)) (\<lambda>byte2.
             if byte2 AND 0xc0 \<noteq> 0x80 then Inl IllegalContinuationByte
             else bindE (readU1 mem (data + 2)) (\<lambda>byte3.
               if byte3 AND 0xc0 \<noteq> 0x80 then Inl IllegalContinuationByte
               else
                 (let v = (push_bit 12 (ucast (byte1 AND 0x0f)) OR
                           push_bit 6 (ucast (byte2 AND 0x3f)) OR
                           ucast (byte3 AND 0x3f) :: u2) in
                  if v < 0x800 then Inl IllegalRepresentation
                  else stringDataUnits mem n (data + 3))))
         else
           bindE (readU1 mem (data + 1)) (\<lambda>byte2.
             if byte2 AND 0xc0 \<noteq> 0x80 then Inl IllegalContinuationByte
             else
               (let v = (push_bit 6 (ucast (byte1 AND 0x1f)) OR
                         ucast (byte2 AND 0x3f) :: u2) in
                if v \<noteq> 0 \<and> v < 0x80 then Inl IllegalRepresentation
                else stringDataUnits mem n (data + 2)))))"

definition intraVerifyStringDataItem :: "u1 list \<Rightarrow> nat \<Rightarrow> failure + nat" where
  "intraVerifyStringDataItem mem ptr =
     bindE (readAndVerifyUnsignedLeb128 mem ptr (length mem)) (\<lambda>(utf16Size, data, okay).
       if \<not> okay then Inl BogusUtf16Size
       else bindE (stringDataUnits mem (unat utf16Size) data) (\<lambda>data'.
         bindE (readU1 mem data') (\<lambda>b.
           if b \<noteq> 0 then Inl StringLongerThanIndicated
           else Inr (data' + 1))))"

text \<open>
  What the format asks of the payload, in the words of its description: a logical unit
  is one byte \<open>0xxxxxxx\<close> other than zero, two bytes led by \<open>110xxxxx\<close>, or three bytes led
  by \<open>1110xxxx\<close>. \<open>skipUnits mem n data\<close> is the position behind \<open>n\<close> such units, if the
  payload holds them.
\<close>

definition unitLength :: "u1 \<Rightarrow> nat option" where
  "unitLength b =
     (if b = 0 then None
      else if b < 0x80 then Some 1
      else if 0xc0 \<le> b \<and> b < 0xe0 then Some 2
      else if 0xe0 \<le> b \<and> b < 0xf0 then Some 3
      else None)"

fun skipUnits :: "u1 list \<Rightarrow> nat \<Rightarrow> nat \<Rightarrow> nat option" where
  "skipUnits mem 0 data = Some data"
| "skipUnits mem (Suc n) data =
     (if length mem \<le> data then None
      else case unitLength (mem ! data) of
             None \<Rightarrow> None
           | Some k \<Rightarrow> skipUnits mem n (data + k))"

section \<open>DexSwapVerify.c: byte order, header and checker state\<close>

text \<open>
  The host's byte order is fixed when the code is compiled (\<open>__BYTE_ORDER\<close>); in the model
  it is the parameter \<open>be\<close>, true for a big-endian host. The \<open>SWAP\<close> macros are the identity
  on a little-endian host.
\<close>

definition endianSwapU2 :: "u2 \<Rightarrow> u2" where
  "endianSwapU2 v = drop_bit 8 v OR push_bit 8 v"

definition endianSwapU4 :: "u4 \<Rightarrow> u4" where
  "endianSwapU4 v0 =
     (let v = drop_bit 16 v0 OR push_bit 16 v0
      in drop_bit 8 (v AND 0xff00ff00) OR (push_bit 8 v AND 0xff00ff00))"

definition SWAP2 :: "bool \<Rightarrow> u2 \<Rightarrow> u2" where
  "SWAP2 be v = (if be then endianSwapU2 v else v)"

definition SWAP4 :: "bool \<Rightarrow> u4 \<Rightarrow> u4" where
  "SWAP4 be v = (if be then endianSwapU4 v else v)"

text \<open>What the host reads from four or two bytes of memory as one integer.\<close>

definition hostU4 :: "bool \<Rightarrow> u1 list \<Rightarrow> u4" where
  "hostU4 be bs =
     (let cs = (if be then rev bs else bs)
      in ucast (cs ! 0) OR push_bit 8 (ucast (cs ! 1)) OR push_bit 16 (ucast (cs ! 2))
         OR push_bit 24 (ucast (cs ! 3)))"

definition hostU2 :: "bool \<Rightarrow> u1 list \<Rightarrow> u2" where
  "hostU2 be bs =
     (let cs = (if be then rev bs else bs)
      in ucast (cs ! 0) OR push_bit 8 (ucast (cs ! 1)))"

definition readU4 :: "bool \<Rightarrow> u1 list \<Rightarrow> nat \<Rightarrow> failure + u4" where
  "readU4 be mem p =
     (if p + 4 \<le> length mem then Inr (hostU4 be (take 4 (drop p mem)))
      else Inl ReadOutsideBuffer)"

definition readU2 :: "bool \<Rightarrow> u1 list \<Rightarrow> nat \<Rightarrow> failure + u2" where
  "readU2 be mem p =
     (if p + 2 \<le> length mem then Inr (hostU2 be (take 2 (drop p mem)))
      else Inl ReadOutsideBuffer)"

text \<open>
  Modelled from the spec: the header record, the map records and the format's constants
  are declared in the library's file-format header, which is not among the sources. The
  header is the magic and version (8 bytes), the checksum, the signature (20 bytes, never
  touched), then the fields below in this order, 4 bytes each: \<open>0x70\<close> bytes in all.
\<close>

record DexHeader =
  checksum :: u4
  fileSize :: u4
  headerSize :: u4
  endianTag :: u4
  linkSize :: u4
  linkOff :: u4
  mapOff :: u4
  stringIdsSize :: u4
  stringIdsOff :: u4
  typeIdsSize :: u4
  typeIdsOff :: u4
  fieldIdsSize :: u4
  fieldIdsOff :: u4
  methodIdsSize :: u4
  methodIdsOff :: u4
  protoIdsSize :: u4
  protoIdsOff :: u4
  classDefsSize :: u4
  classDefsOff :: u4
  dataSize :: u4
  dataOff :: u4

definition sizeofDexHeader :: nat where "sizeofDexHeader = 0x70"

definition DEX_MAGIC :: "u1 list" where "DEX_MAGIC = [0x64, 0x65, 0x78, 0x0a]"
definition DEX_MAGIC_VERS :: "u1 list" where "DEX_MAGIC_VERS = [0x30, 0x33, 0x35, 0x00]"
definition kDexEndianConstant :: u4 where "kDexEndianConstant = 0x12345678"

text \<open>The header as the host reads it from the start of the buffer, before any swap.\<close>

definition headerAt :: "bool \<Rightarrow> u1 list \<Rightarrow> DexHeader" where
  "headerAt be mem =
     (let f = (\<lambda>p. hostU4 be (take 4 (drop p mem))) in
      \<lparr>checksum = f 8, fileSize = f 32, headerSize = f 36, endianTag = f 40,
       linkSize = f 44, linkOff = f 48, mapOff = f 52,
       stringIdsSize = f 56, stringIdsOff = f 60, typeIdsSize = f 64, typeIdsOff = f 68,
       fieldIdsSize = f 80, fieldIdsOff = f 84, methodIdsSize = f 88, methodIdsOff = f 92,
       protoIdsSize = f 72, protoIdsOff = f 76, classDefsSize = f 96, classDefsOff = f 100,
       dataSize = f 104, dataOff = f 108\<rparr>)"

text \<open>
  The state of the checker. The header and the map are typed objects of their own, held
  as records once swapped; the rest of the file is the byte list \<open>fileStart\<close>, which the
  item visitors read and swap in place. Pointers are offsets from \<open>fileStart\<close>, so
  \<open>fileEnd\<close> is \<open>fileLen\<close>; address arithmetic is taken not to wrap. The data map is the list
  of the (offset, type) pairs added to it.
\<close>

record CheckState =
  pHeader :: DexHeader
  fileStart :: "u1 list"
  fileLen :: u4
  pDataMap :: "(u4 \<times> int) list"
  pDefinedClassBits :: "u4 list option"
  previousItem :: "nat option"

definition checkPtrRange :: "CheckState \<Rightarrow> nat \<Rightarrow> nat \<Rightarrow> bool" where
  "checkPtrRange state start end =
     (\<not> (unat (fileLen state) < start \<or> end < start \<or> unat (fileLen state) < end))"

abbreviation "BadOffsetRange \<equiv> Failed ''Bad offset range''"
abbreviation "NonZeroPadding \<equiv> Failed ''Non-zero padding''"
abbreviation "ItemEndsOutOfBounds \<equiv> Failed ''Item ends out of bounds''"

section \<open>DexSwapVerify.c: iterating over the items of a section\<close>

text \<open>The loop \<open>while (offset < newOffset)\<close> over the padding bytes, \<open>n\<close> of them from \<open>p\<close> on.\<close>

fun zeroPadding :: "u1 list \<Rightarrow> nat \<Rightarrow> nat \<Rightarrow> failure + unit" where
  "zeroPadding mem p 0 = Inr ()"
| "zeroPadding mem p (Suc n) =
     bindE (readU1 mem p) (\<lambda>b.
       if b \<noteq> 0 then Inl NonZeroPadding else zeroPadding mem (p + 1) n)"

text \<open>
  An item visitor takes the state and the pointer to an item; it returns NULL (here the
  reason) or the pointer behind the item, and may have swapped bytes of the file in
  place.
\<close>

type_synonym ItemVisitorFunction = "CheckState \<Rightarrow> nat \<Rightarrow> failure + (nat \<times> CheckState)"

definition alignUp :: "u4 \<Rightarrow> u4 \<Rightarrow> u4" where
  "alignUp alignment offset =
     (let alignmentMask = alignment - 1 in (offset + alignmentMask) AND NOT alignmentMask)"

text \<open>
  The body of the \<open>for\<close> loop of \<open>iterateSectionWithOptionalUpdate\<close>, for one item: the
  padding before it, the visit, and the bookkeeping. It gives the offset behind the item
  and the state. The item is added to the data map under the offset reached by the
  padding loop.
\<close>

definition iterateItem ::
  "ItemVisitorFunction \<Rightarrow> u4 \<Rightarrow> int \<Rightarrow> CheckState \<Rightarrow> u4 \<Rightarrow> failure + (u4 \<times> CheckState)"
  where
  "iterateItem func alignment mapType state offset =
     (let newOffset = alignUp alignment offset in
      bindE
        (if offset < newOffset then
           (if \<not> checkPtrRange state (unat offset) (unat newOffset) then Inl BadOffsetRange
            else bindE (zeroPadding (fileStart state) (unat offset)
                          (unat newOffset - unat offset))
                   (\<lambda>_. Inr newOffset))
         else Inr offset)
        (\<lambda>offset'.
           let ptr = unat newOffset in
           bindE (func state ptr) (\<lambda>(newPtr, state').
             let newOffset' = (of_nat newPtr :: u4) in
             if fileLen state' < newOffset' then Inl ItemEndsOutOfBounds
             else
               (let state'' = (if 0 \<le> mapType
                               then state'\<lparr>pDataMap := pDataMap state' @ [(offset', mapType)]\<rparr>
                               else state')
                in Inr (newOffset', state''\<lparr>previousItem := Some ptr\<rparr>)))))"

text \<open>The loop, for the \<open>n\<close> items still to visit.\<close>

fun iterateItems ::
  "ItemVisitorFunction \<Rightarrow> u4 \<Rightarrow> int \<Rightarrow> nat \<Rightarrow> CheckState \<Rightarrow> u4 \<Rightarrow> failure + (u4 \<times> CheckState)"
  where
  "iterateItems func alignment mapType 0 state offset = Inr (offset, state)"
| "iterateItems func alignment mapType (Suc n) state offset =
     bindE (iterateItem func alignment mapType state offset) (\<lambda>(offset', state').
       iterateItems func alignment mapType n state' offset')"

definition iterateSectionWithOptionalUpdate ::
  "CheckState \<Rightarrow> u4 \<Rightarrow> u4 \<Rightarrow> ItemVisitorFunction \<Rightarrow> u4 \<Rightarrow> int
     \<Rightarrow> failure + (u4 \<times> CheckState)" where
  "iterateSectionWithOptionalUpdate state offset count func alignment mapType =
     iterateItems func alignment mapType (unat count) (state\<lparr>previousItem := None\<rparr>) offset"

definition iterateSection ::
  "CheckState \<Rightarrow> u4 \<Rightarrow> u4 \<Rightarrow> ItemVisitorFunction \<Rightarrow> u4 \<Rightarrow> failure + (u4 \<times> CheckState)" where
  "iterateSection state offset count func alignment =
     iterateSectionWithOptionalUpdate state offset count func alignment (- 1)"

section \<open>DexSwapVerify.c: the header and the map\<close>

abbreviation "UnexpectedEndianTag \<equiv> Failed ''Unexpected endian_tag''"

text \<open>
  \<open>swapDexHeader\<close> takes the header as the host reads it and gives the swapped header.
  \<open>linkEnd\<close> and \<open>dataEnd\<close> are sums of \<open>u4\<close> values and wrap.
\<close>

definition swapDexHeader :: "bool \<Rightarrow> CheckState \<Rightarrow> DexHeader \<Rightarrow> failure + DexHeader" where
  "swapDexHeader be state h0 =
     (if \<not> checkPtrRange state 0 sizeofDexHeader then Inl BadOffsetRange
      else
        (let h = \<lparr>checksum = SWAP4 be (checksum h0), fileSize = SWAP4 be (fileSize h0),
                  headerSize = SWAP4 be (headerSize h0), endianTag = SWAP4 be (endianTag h0),
                  linkSize = SWAP4 be (linkSize h0), linkOff = SWAP4 be (linkOff h0),
                  mapOff = SWAP4 be (mapOff h0),
                  stringIdsSize = SWAP4 be (stringIdsSize h0),
                  stringIdsOff = SWAP4 be (stringIdsOff h0),
                  typeIdsSize = SWAP4 be (typeIdsSize h0),
                  typeIdsOff = SWAP4 be (typeIdsOff h0),
                  fieldIdsSize = SWAP4 be (fieldIdsSize h0),
                  fieldIdsOff = SWAP4 be (fieldIdsOff h0),
                  methodIdsSize = SWAP4 be (methodIdsSize h0),
                  methodIdsOff = SWAP4 be (methodIdsOff h0),
                  protoIdsSize = SWAP4 be (protoIdsSize h0),
                  protoIdsOff = SWAP4 be (protoIdsOff h0),
                  classDefsSize = SWAP4 be (classDefsSize h0),
                  classDefsOff = SWAP4 be (classDefsOff h0),
                  dataSize = SWAP4 be (dataSize h0), dataOff = SWAP4 be (dataOff h0)\<rparr>
         in if endianTag h \<noteq> kDexEndianConstant then Inl UnexpectedEndianTag
            else
              (let linkEnd = linkOff h + linkSize h;
                   dataEnd = dataOff h + dataSize h
               in if \<not> checkPtrRange state (unat (linkOff h)) (unat linkEnd)
                  then Inl BadOffsetRange
                  else if \<not> checkPtrRange state (unat (dataOff h)) (unat dataEnd)
                  then Inl BadOffsetRange
                  else Inr h)))"

record DexMapItem =
  mi_type :: u2
  mi_unused :: u2
  mi_size :: u4
  mi_offset :: u4

record DexMapList =
  ml_size :: u4
  ml_list :: "DexMapItem list"

definition sizeofDexMapItem :: nat where "sizeofDexMapItem = 12"

text \<open>The map as the host reads it at \<open>p\<close>: the size, and every entry that the buffer holds.\<close>

definition mapItemAt :: "bool \<Rightarrow> u1 list \<Rightarrow> nat \<Rightarrow> DexMapItem" where
  "mapItemAt be mem p =
     \<lparr>mi_type = hostU2 be (take 2 (drop p mem)),
      mi_unused = hostU2 be (take 2 (drop (p + 2) mem)),
      mi_size = hostU4 be (take 4 (drop (p + 4) mem)),
      mi_offset = hostU4 be (take 4 (drop (p + 8) mem))\<rparr>"

definition mapListAt :: "bool \<Rightarrow> u1 list \<Rightarrow> nat \<Rightarrow> failure + DexMapList" where
  "mapListAt be mem p =
     bindE (readU4 be mem p) (\<lambda>sz.
       Inr \<lparr>ml_size = sz,
            ml_list = map (\<lambda>i. mapItemAt be mem (p + 4 + sizeofDexMapItem * i))
                        [0 ..< (length mem - (p + 4)) div sizeofDexMapItem]\<rparr>)"

definition kDexTypeHeaderItem :: int where "kDexTypeHeaderItem = 0x0000"
definition kDexTypeStringIdItem :: int where "kDexTypeStringIdItem = 0x0001"
definition kDexTypeTypeIdItem :: int where "kDexTypeTypeIdItem = 0x0002"
definition kDexTypeProtoIdItem :: int where "kDexTypeProtoIdItem = 0x0003"
definition kDexTypeFieldIdItem :: int where "kDexTypeFieldIdItem = 0x0004"
definition kDexTypeMethodIdItem :: int where "kDexTypeMethodIdItem = 0x0005"
definition kDexTypeClassDefItem :: int where "kDexTypeClassDefItem = 0x0006"
definition kDexTypeMapList :: int where "kDexTypeMapList = 0x1000"
definition kDexTypeTypeList :: int where "kDexTypeTypeList = 0x1001"
definition kDexTypeAnnotationSetRefList :: int where "kDexTypeAnnotationSetRefList = 0x1002"
definition kDexTypeAnnotationSetItem :: int where "kDexTypeAnnotationSetItem = 0x1003"
definition kDexTypeClassDataItem :: int where "kDexTypeClassDataItem = 0x2000"
definition kDexTypeCodeItem :: int where "kDexTypeCodeItem = 0x2001"
definition kDexTypeStringDataItem :: int where "kDexTypeStringDataItem = 0x2002"
definition kDexTypeDebugInfoItem :: int where "kDexTypeDebugInfoItem = 0x2003"
definition kDexTypeAnnotationItem :: int where "kDexTypeAnnotationItem = 0x2004"
definition kDexTypeEncodedArrayItem :: int where "kDexTypeEncodedArrayItem = 0x2005"
definition kDexTypeAnnotationsDirectoryItem :: int where
  "kDexTypeAnnotationsDirectoryItem = 0x2006"

definition mapTypeToBitMask :: "int \<Rightarrow> u4" where
  "mapTypeToBitMask mapType =
     (if mapType = kDexTypeHeaderItem then push_bit 0 1
      else if mapType = kDexTypeStringIdItem then push_bit 1 1
      else if mapType = kDexTypeTypeIdItem then push_bit 2 1
      else if mapType = kDexTypeProtoIdItem then push_bit 3 1
      else if mapType = kDexTypeFieldIdItem then push_bit 4 1
      else if mapType = kDexTypeMethodIdItem then push_bit 5 1
      else if mapType = kDexTypeClassDefItem then push_bit 6 1
      else if mapType = kDexTypeMapList then push_bit 7 1
      else if mapType = kDexTypeTypeList then push_bit 8 1
      else if mapType = kDexTypeAnnotationSetRefList then push_bit 9 1
      else if mapType = kDexTypeAnnotationSetItem then push_bit 10 1
      else if mapType = kDexTypeClassDataItem then push_bit 11 1
      else if mapType = kDexTypeCodeItem then push_bit 12 1
      else if mapType = kDexTypeStringDataItem then push_bit 13 1
      else if mapType = kDexTypeDebugInfoItem then push_bit 14 1
      else if mapType = kDexTypeAnnotationItem then push_bit 15 1
      else if mapType = kDexTypeEncodedArrayItem then push_bit 16 1
      else if mapType = kDexTypeAnnotationsDirectoryItem then push_bit 17 1
      else 0)"

definition isDataSectionType :: "int \<Rightarrow> bool" where
  "isDataSectionType mapType =
     (\<not> (mapType = kDexTypeHeaderItem \<or> mapType = kDexTypeStringIdItem
         \<or> mapType = kDexTypeTypeIdItem \<or> mapType = kDexTypeProtoIdItem
         \<or> mapType = kDexTypeFieldIdItem \<or> mapType = kDexTypeMethodIdItem
         \<or> mapType = kDexTypeClassDefItem))"

abbreviation "BadListSize \<equiv> Failed ''Bad offset range (list size)''"
abbreviation "OutOfOrderMapItem \<equiv> Failed ''Out-of-order map item''"
abbreviation "MapItemAfterEndOfFile \<equiv> Failed ''Map item after end of file''"
abbreviation "UnrealisticallyManyItems \<equiv>
  Failed ''Unrealistically many items in the data section''"
abbreviation "UnknownMapItemType \<equiv> Failed ''Unknown map item type''"
abbreviation "DuplicateMapSection \<equiv> Failed ''Duplicate map section''"
abbreviation "MapIsMissingEntry \<equiv> Failed ''Map is missing entry''"
abbreviation "UnableToAllocateDataMap \<equiv> Failed ''Unable to allocate data map''"

definition swapMapItem :: "bool \<Rightarrow> DexMapItem \<Rightarrow> DexMapItem" where
  "swapMapItem be item =
     \<lparr>mi_type = SWAP2 be (mi_type item), mi_unused = SWAP2 be (mi_unused item),
      mi_size = SWAP4 be (mi_size item), mi_offset = SWAP4 be (mi_offset item)\<rparr>"

text \<open>
  The \<open>while (count--)\<close> loop of \<open>swapMap\<close> over the entries still to come. It carries
  \<open>first\<close>, \<open>lastOffset\<close>, \<open>dataItemsLeft\<close>, \<open>dataItemCount\<close> and \<open>usedBits\<close>, and gives the swapped
  entries with the final \<open>dataItemCount\<close> and \<open>usedBits\<close>.
\<close>

fun swapMapItems ::
  "bool \<Rightarrow> DexHeader \<Rightarrow> DexMapItem list \<Rightarrow> bool \<Rightarrow> u4 \<Rightarrow> u4 \<Rightarrow> u4 \<Rightarrow> u4
     \<Rightarrow> failure + (DexMapItem list \<times> u4 \<times> u4)" where
  "swapMapItems be hdr [] first lastOffset dataItemsLeft dataItemCount usedBits =
     Inr ([], dataItemCount, usedBits)"
| "swapMapItems be hdr (raw # rest) first lastOffset dataItemsLeft dataItemCount usedBits =
     (let item = swapMapItem be raw in
      if \<not> first \<and> mi_offset item \<le> lastOffset then Inl OutOfOrderMapItem
      else if fileSize hdr \<le> mi_offset item then Inl MapItemAfterEndOfFile
      else
        bindE
          (if isDataSectionType (uint (mi_type item)) then
             (let icount = mi_size item in
              if dataItemsLeft < icount then Inl UnrealisticallyManyItems
              else Inr (dataItemsLeft - icount, dataItemCount + icount))
           else Inr (dataItemsLeft, dataItemCount))
          (\<lambda>(dataItemsLeft', dataItemCount').
             let bit = mapTypeToBitMask (uint (mi_type item)) in
             if bit = 0 then Inl UnknownMapItemType
             else if usedBits AND bit \<noteq> 0 then Inl DuplicateMapSection
             else
               bindE (swapMapItems be hdr rest False (mi_offset item) dataItemsLeft'
                        dataItemCount' (usedBits OR bit))
                 (\<lambda>(rest', c, u). Inr (item # rest', c, u))))"

text \<open>
  \<open>CHECK_LIST_SIZE\<close>: the product of count and element size must not overflow 32 bits
  (\<open>safe_mul\<close>, on a 32-bit build, where \<open>size_t\<close> is as wide as \<open>u4\<close>), and the list must lie
  within the file.
\<close>

definition checkListSize :: "CheckState \<Rightarrow> nat \<Rightarrow> u4 \<Rightarrow> nat \<Rightarrow> bool" where
  "checkListSize state ptr count elemSize =
     (unat count * elemSize < 2 ^ 32 \<and> checkPtrRange state ptr (ptr + unat count * elemSize))"

text \<open>
  \<open>swapMap\<close> takes the pointer to the map and the map as the host reads it there; whether
  the data map can be allocated is the parameter \<open>allocates\<close>. It gives the state with the
  data map and the swapped map.
\<close>

definition swapMap ::
  "bool \<Rightarrow> (u4 \<Rightarrow> bool) \<Rightarrow> CheckState \<Rightarrow> nat \<Rightarrow> DexMapList
     \<Rightarrow> failure + (CheckState \<times> DexMapList)" where
  "swapMap be allocates state mapPtr pMap =
     (let count = SWAP4 be (ml_size pMap); hdr = pHeader state in
      if \<not> checkListSize state (mapPtr + 4) count sizeofDexMapItem then Inl BadListSize
      else if length (ml_list pMap) < unat count then Inl ReadOutsideBuffer
      else
        bindE (swapMapItems be hdr (take (unat count) (ml_list pMap)) True 0 (dataSize hdr) 0 0)
          (\<lambda>(items, dataItemCount, usedBits).
             if usedBits AND mapTypeToBitMask kDexTypeHeaderItem = 0 then Inl MapIsMissingEntry
             else if usedBits AND mapTypeToBitMask kDexTypeMapList = 0
               then Inl MapIsMissingEntry
             else if usedBits AND mapTypeToBitMask kDexTypeStringIdItem = 0
                     \<and> (stringIdsOff hdr \<noteq> 0 \<or> stringIdsSize hdr \<noteq> 0)
               then Inl MapIsMissingEntry
             else if usedBits AND mapTypeToBitMask kDexTypeTypeIdItem = 0
                     \<and> (typeIdsOff hdr \<noteq> 0 \<or> typeIdsSize hdr \<noteq> 0)
               then Inl MapIsMissingEntry
             else if usedBits AND mapTypeToBitMask kDexTypeProtoIdItem = 0
                     \<and> (protoIdsOff hdr \<noteq> 0 \<or> protoIdsSize hdr \<noteq> 0)
               then Inl MapIsMissingEntry
             else if usedBits AND mapTypeToBitMask kDexTypeFieldIdItem = 0
                     \<and> (fieldIdsOff hdr \<noteq> 0 \<or> fieldIdsSize hdr \<noteq> 0)
               then Inl MapIsMissingEntry
             else if usedBits AND mapTypeToBitMask kDexTypeMethodIdItem = 0
                     \<and> (methodIdsOff hdr \<noteq> 0 \<or> methodIdsSize hdr \<noteq> 0)
               then Inl MapIsMissingEntry
             else if usedBits AND mapTypeToBitMask kDexTypeClassDefItem = 0
                     \<and> (classDefsOff hdr \<noteq> 0 \<or> classDefsSize hdr \<noteq> 0)
               then Inl MapIsMissingEntry
             else if \<not> allocates dataItemCount then Inl UnableToAllocateDataMap
             else Inr (state\<lparr>pDataMap := []\<rparr>,
                       \<lparr>ml_size = count,
                        ml_list = items @ drop (unat count) (ml_list pMap)\<rparr>)))"

text \<open>
  For the statements about the map: the bit of an entry's type, and the number of items
  that the entries of data-section types declare together.
\<close>

definition itemBit :: "DexMapItem \<Rightarrow> u4" where
  "itemBit it = mapTypeToBitMask (uint (mi_type it))"

definition dataItems :: "DexMapItem list \<Rightarrow> nat" where
  "dataItems items =
     sum_list (map (\<lambda>it. unat (mi_size it))
       (filter (\<lambda>it. isDataSectionType (uint (mi_type it))) items))"

section \<open>DexSwapVerify.c: the structural pass and the cross-item pass\<close>

abbreviation "MultipleItems \<equiv> Failed ''Multiple header or map list items''"
abbreviation "HeaderNotAtStart \<equiv> Failed ''Header not at start of file''"
abbreviation "MapNotAtHeaderOffset \<equiv> Failed ''Map not at header-defined offset''"
abbreviation "BogusSectionOffset \<equiv> Failed ''Bogus offset for section''"
abbreviation "BogusSectionSize \<equiv> Failed ''Bogus size for section''"
abbreviation "BogusDataOffset \<equiv> Failed ''Bogus offset for data subsection''"
abbreviation "OutOfBoundsDataEnd \<equiv> Failed ''Out-of-bounds end of data subsection''"
abbreviation "SectionOverlap \<equiv> Failed ''Section overlap or out-of-order map''"

definition checkHeaderSection :: "CheckState \<Rightarrow> u4 \<Rightarrow> u4 \<Rightarrow> failure + u4" where
  "checkHeaderSection state sectionOffset sectionCount =
     (if sectionCount \<noteq> 1 then Inl MultipleItems
      else if sectionOffset \<noteq> 0 then Inl HeaderNotAtStart
      else Inr (headerSize (pHeader state)))"

definition checkMapSection :: "CheckState \<Rightarrow> DexMapList \<Rightarrow> u4 \<Rightarrow> u4 \<Rightarrow> failure + u4" where
  "checkMapSection state pMap sectionOffset sectionCount =
     (if sectionCount \<noteq> 1 then Inl MultipleItems
      else if sectionOffset \<noteq> mapOff (pHeader state) then Inl MapNotAtHeaderOffset
      else Inr (sectionOffset + 4 + ml_size pMap * of_nat sizeofDexMapItem))"

definition checkBoundsAndIterateSection ::
  "CheckState \<Rightarrow> u4 \<Rightarrow> u4 \<Rightarrow> u4 \<Rightarrow> u4 \<Rightarrow> ItemVisitorFunction \<Rightarrow> u4
     \<Rightarrow> failure + (u4 \<times> CheckState)" where
  "checkBoundsAndIterateSection state offset count expectedOffset expectedCount func
       alignment =
     (if offset \<noteq> expectedOffset then Inl BogusSectionOffset
      else if count \<noteq> expectedCount then Inl BogusSectionSize
      else iterateSection state offset count func alignment)"

definition iterateDataSection ::
  "CheckState \<Rightarrow> u4 \<Rightarrow> u4 \<Rightarrow> ItemVisitorFunction \<Rightarrow> u4 \<Rightarrow> int
     \<Rightarrow> failure + (u4 \<times> CheckState)" where
  "iterateDataSection state offset count func alignment mapType =
     (let dataStart = dataOff (pHeader state);
          dataEnd = dataStart + dataSize (pHeader state)
      in if offset < dataStart \<or> dataEnd \<le> offset then Inl BogusDataOffset
         else
           bindE (iterateSectionWithOptionalUpdate state offset count func alignment mapType)
             (\<lambda>(nextOffset, state').
                if dataEnd < nextOffset then Inl OutOfBoundsDataEnd
                else Inr (nextOffset, state')))"

text \<open>
  The \<open>switch\<close> of \<open>swapEverythingButHeaderAndMap\<close> on the type of a map entry. The item
  visitors (\<open>swapStringIdItem\<close>, \<open>swapCodeItem\<close>, \<open>intraVerifyStringDataItem\<close> and the others)
  are the parameter \<open>visit\<close>, indexed by the type; the result is \<open>lastOffset\<close> and the state.
\<close>

definition swapSection ::
  "(int \<Rightarrow> ItemVisitorFunction) \<Rightarrow> CheckState \<Rightarrow> DexMapList \<Rightarrow> DexMapItem
     \<Rightarrow> failure + (u4 \<times> CheckState)" where
  "swapSection visit state pMap item =
     (let sectionOffset = mi_offset item; sectionCount = mi_size item;
          type = uint (mi_type item); hdr = pHeader state
      in
      if type = kDexTypeHeaderItem then
        bindE (checkHeaderSection state sectionOffset sectionCount) (\<lambda>e. Inr (e, state))
      else if type = kDexTypeStringIdItem then
        checkBoundsAndIterateSection state sectionOffset sectionCount
          (stringIdsOff hdr) (stringIdsSize hdr) (visit type) 4
      else if type = kDexTypeTypeIdItem then
        checkBoundsAndIterateSection state sectionOffset sectionCount
          (typeIdsOff hdr) (typeIdsSize hdr) (visit type) 4
      else if type = kDexTypeProtoIdItem then
        checkBoundsAndIterateSection state sectionOffset sectionCount
          (protoIdsOff hdr) (protoIdsSize hdr) (visit type) 4
      else if type = kDexTypeFieldIdItem then
        checkBoundsAndIterateSection state sectionOffset sectionCount
          (fieldIdsOff hdr) (fieldIdsSize hdr) (visit type) 4
      else if type = kDexTypeMethodIdItem then
        checkBoundsAndIterateSection state sectionOffset sectionCount
          (methodIdsOff hdr) (methodIdsSize hdr) (visit type) 4
      else if type = kDexTypeClassDefItem then
        checkBoundsAndIterateSection state sectionOffset sectionCount
          (classDefsOff hdr) (classDefsSize hdr) (visit type) 4
      else if type = kDexTypeMapList then
        bindE (checkMapSection state pMap sectionOffset sectionCount) (\<lambda>e. Inr (e, state))
      else if type = kDexTypeTypeList \<or> type = kDexTypeAnnotationSetRefList
              \<or> type = kDexTypeAnnotationSetItem \<or> type = kDexTypeCodeItem
              \<or> type = kDexTypeAnnotationsDirectoryItem then
        iterateDataSection state sectionOffset sectionCount (visit type) 4 type
      else if type = kDexTypeClassDataItem \<or> type = kDexTypeStringDataItem
              \<or> type = kDexTypeDebugInfoItem \<or> type = kDexTypeAnnotationItem
              \<or> type = kDexTypeEncodedArrayItem then
        iterateDataSection state sectionOffset sectionCount (visit type) 1 type
      else Inl UnknownMapItemType)"



text \<open>
  The body of the \<open>while (okay && count--)\<close> loop of \<open>swapEverythingButHeaderAndMap\<close>, for
  one entry of the map: the padding check between the sections, then the \<open>switch\<close>. It
  gives \<open>lastOffset\<close> and the state.
\<close>

definition swapNextSection ::
  "(int \<Rightarrow> ItemVisitorFunction) \<Rightarrow> DexMapList \<Rightarrow> CheckState \<Rightarrow> u4 \<Rightarrow> DexMapItem
     \<Rightarrow> failure + (u4 \<times> CheckState)" where
  "swapNextSection visit pMap state lastOffset item =
     (let sectionOffset = mi_offset item in
      bindE
        (if lastOffset < sectionOffset then
           (if \<not> checkPtrRange state (unat lastOffset) (unat sectionOffset)
            then Inl BadOffsetRange
            else zeroPadding (fileStart state) (unat lastOffset)
                   (unat sectionOffset - unat lastOffset))
         else if sectionOffset < lastOffset then Inl SectionOverlap
         else Inr ())
        (\<lambda>_. swapSection visit state pMap item))"

text \<open>The loop, over the entries still to come.\<close>

fun swapSections ::
  "(int \<Rightarrow> ItemVisitorFunction) \<Rightarrow> DexMapList \<Rightarrow> DexMapItem list \<Rightarrow> CheckState \<Rightarrow> u4
     \<Rightarrow> failure + (u4 \<times> CheckState)" where
  "swapSections visit pMap [] state lastOffset = Inr (lastOffset, state)"
| "swapSections visit pMap (item # items) state lastOffset =
     bindE (swapNextSection visit pMap state lastOffset item) (\<lambda>(lastOffset', state').
       swapSections visit pMap items state' lastOffset')"

definition swapEverythingButHeaderAndMap ::
  "(int \<Rightarrow> ItemVisitorFunction) \<Rightarrow> CheckState \<Rightarrow> DexMapList \<Rightarrow> failure + CheckState" where
  "swapEverythingButHeaderAndMap visit state pMap =
     (if length (ml_list pMap) < unat (ml_size pMap) then Inl ReadOutsideBuffer
      else bindE (swapSections visit pMap (take (unat (ml_size pMap)) (ml_list pMap)) state 0)
             (\<lambda>(lastOffset, state'). Inr state'))"

text \<open>
  \<open>crossVerifyEverything\<close>, with the cross-verifying visitors as the parameter
  \<open>crossVisit\<close>; the bitmap of the defined classes has \<open>(typeIdsSize + 0x1f) >> 5\<close> words.
\<close>

definition calcDefinedClassBitsSize :: "CheckState \<Rightarrow> nat" where
  "calcDefinedClassBitsSize state = unat (drop_bit 5 (typeIdsSize (pHeader state) + 0x1f))"

definition crossVerifySection ::
  "(int \<Rightarrow> ItemVisitorFunction) \<Rightarrow> CheckState \<Rightarrow> DexMapItem \<Rightarrow> failure + CheckState" where
  "crossVerifySection crossVisit state item =
     (let sectionOffset = mi_offset item; sectionCount = mi_size item;
          type = uint (mi_type item)
      in
      if type = kDexTypeHeaderItem \<or> type = kDexTypeMapList \<or> type = kDexTypeTypeList
         \<or> type = kDexTypeCodeItem \<or> type = kDexTypeStringDataItem
         \<or> type = kDexTypeDebugInfoItem \<or> type = kDexTypeAnnotationItem
         \<or> type = kDexTypeEncodedArrayItem then Inr state
      else if type = kDexTypeStringIdItem \<or> type = kDexTypeTypeIdItem
              \<or> type = kDexTypeProtoIdItem \<or> type = kDexTypeFieldIdItem
              \<or> type = kDexTypeMethodIdItem \<or> type = kDexTypeAnnotationSetRefList
              \<or> type = kDexTypeAnnotationSetItem
              \<or> type = kDexTypeAnnotationsDirectoryItem then
        bindE (iterateSection state sectionOffset sectionCount (crossVisit type) 4)
          (\<lambda>(nextOffset, state'). Inr state')
      else if type = kDexTypeClassDefItem then
        bindE (iterateSection
                 (state\<lparr>pDefinedClassBits :=
                           Some (replicate (calcDefinedClassBitsSize state) 0)\<rparr>)
                 sectionOffset sectionCount (crossVisit type) 4)
          (\<lambda>(nextOffset, state'). Inr (state'\<lparr>pDefinedClassBits := None\<rparr>))
      else if type = kDexTypeClassDataItem then
        bindE (iterateSection state sectionOffset sectionCount (crossVisit type) 1)
          (\<lambda>(nextOffset, state'). Inr state')
      else Inl UnknownMapItemType)"

fun crossVerifySections ::
  "(int \<Rightarrow> ItemVisitorFunction) \<Rightarrow> DexMapItem list \<Rightarrow> CheckState \<Rightarrow> failure + CheckState"
  where
  "crossVerifySections crossVisit [] state = Inr state"
| "crossVerifySections crossVisit (item # items) state =
     bindE (crossVerifySection crossVisit state item)
       (\<lambda>state'. crossVerifySections crossVisit items state')"

definition crossVerifyEverything ::
  "(int \<Rightarrow> ItemVisitorFunction) \<Rightarrow> CheckState \<Rightarrow> DexMapList \<Rightarrow> failure + CheckState" where
  "crossVerifyEverything crossVisit state pMap =
     (if length (ml_list pMap) < unat (ml_size pMap) then Inl ReadOutsideBuffer
      else crossVerifySections crossVisit (take (unat (ml_size pMap)) (ml_list pMap)) state)"

section \<open>DexSwapVerify.c: dexFixByteOrdering\<close>

abbreviation "BadMagicNumber \<equiv> Failed ''Can't byte swap: bad magic number''"
abbreviation "BadDexVersion \<equiv> Failed ''Can't byte swap: bad dex version''"
abbreviation "BadLength \<equiv> Failed ''Bad length''"
abbreviation "BadChecksum \<equiv> Failed ''bad checksum''"
abbreviation "SmallHeaderSize \<equiv> Failed ''Small header size''"
abbreviation "NoMapFound \<equiv> Failed ''No map found; impossible to byte-swap and verify''"

text \<open>
  Modelled from the spec: \<open>adler32\<close> belongs to the compression library, which is not among
  the sources. The standard Adler-32: two sums modulo 65521, the first starting from the
  low half of the running value and the second from its high half; the initial value
  \<open>adler32(0L, Z_NULL, 0)\<close> is 1.
\<close>

definition adler32 :: "u4 \<Rightarrow> u1 list \<Rightarrow> u4" where
  "adler32 adler buf =
     (let (a, b) = foldl (\<lambda>(a, b) byte. let a' = (a + unat byte) mod 65521
                                         in (a', (b + a') mod 65521))
                     (unat (adler AND 0xffff), unat (drop_bit 16 adler)) buf
      in push_bit 16 (of_nat b) OR of_nat a)"

text \<open>\<open>memcmp(p, q, 4) != 0\<close> on the buffer: it reads four bytes at \<open>p\<close>.\<close>

definition memcmp4 :: "u1 list \<Rightarrow> nat \<Rightarrow> u1 list \<Rightarrow> failure + bool" where
  "memcmp4 mem p expected =
     (if p + 4 \<le> length mem then Inr (take 4 (drop p mem) \<noteq> expected)
      else Inl ReadOutsideBuffer)"

text \<open>
  The first three checks of \<open>dexFixByteOrdering\<close>, on the header as it lies in the buffer.
  \<open>len\<close> and \<open>expectedLen\<close> are \<open>int\<close>, so the stored file size is read as a signed number
  for the comparison with \<open>len\<close>, and as \<open>u4\<close> for the checksum; \<open>storedFileSize - nonSum\<close> is
  a \<open>u4\<close> difference and wraps.
\<close>

definition dexCheckMagicLengthChecksum :: "bool \<Rightarrow> u1 list \<Rightarrow> int \<Rightarrow> failure + unit" where
  "dexCheckMagicLengthChecksum be addr len =
     bindE (memcmp4 addr 0 DEX_MAGIC) (\<lambda>badMagic.
       if badMagic then Inl BadMagicNumber
       else bindE (memcmp4 addr 4 DEX_MAGIC_VERS) (\<lambda>badVersion.
         if badVersion then Inl BadDexVersion
         else bindE (readU4 be addr 32) (\<lambda>rawFileSize.
           let expectedLen = sint (SWAP4 be rawFileSize) in
           if len < expectedLen then Inl BadLength
           else bindE (readU4 be addr 8) (\<lambda>rawChecksum.
             let nonSum = 12;
                 storedFileSize = SWAP4 be rawFileSize;
                 expectedChecksum = SWAP4 be rawChecksum;
                 n = unat (storedFileSize - of_nat nonSum)
             in if length addr < nonSum + n then Inl ReadOutsideBuffer
                else if adler32 1 (take n (drop nonSum addr)) \<noteq> expectedChecksum
                then Inl BadChecksum
                else Inr ()))))"

text \<open>
  \<open>dexFixByteOrdering\<close> returns 0 on success: here \<open>Inr\<close> with the final state, and \<open>Inl\<close> for
  a non-zero result. The state starts with the buffer and its length; the header in it
  is the one at the start of the buffer, first as the host reads it, then swapped.
\<close>

definition initialCheckState :: "bool \<Rightarrow> u1 list \<Rightarrow> int \<Rightarrow> CheckState" where
  "initialCheckState be addr len =
     \<lparr>pHeader = headerAt be addr, fileStart = addr, fileLen = word_of_int len,
      pDataMap = [], pDefinedClassBits = None, previousItem = None\<rparr>"

definition dexFixByteOrdering ::
  "bool \<Rightarrow> (u4 \<Rightarrow> bool) \<Rightarrow> (int \<Rightarrow> ItemVisitorFunction) \<Rightarrow> (int \<Rightarrow> ItemVisitorFunction)
     \<Rightarrow> u1 list \<Rightarrow> int \<Rightarrow> failure + CheckState" where
  "dexFixByteOrdering be allocates visit crossVisit addr len =
     bindE (dexCheckMagicLengthChecksum be addr len) (\<lambda>_.
       let state0 = initialCheckState be addr len
       in bindE (swapDexHeader be state0 (headerAt be addr)) (\<lambda>hdr.
            let state = state0\<lparr>pHeader := hdr\<rparr> in
            if headerSize hdr < of_nat sizeofDexHeader then Inl SmallHeaderSize
            else if mapOff hdr = 0 then Inl NoMapFound
            else
              bindE (mapListAt be addr (unat (mapOff hdr))) (\<lambda>pDexMap.
                bindE (swapMap be allocates state (unat (mapOff hdr)) pDexMap)
                  (\<lambda>(state1, pMap1).
                     bindE (swapEverythingButHeaderAndMap visit state1 pMap1) (\<lambda>state2.
                       crossVerifyEverything crossVisit state2 pMap1)))))"

section \<open>DexSwapVerify.c: code items, tries and catch handlers\<close>

abbreviation "BogusHandlersSize \<equiv> Failed ''Bogus handlers_size''"
abbreviation "InvalidHandlersSize \<equiv> Failed ''Invalid handlers_size''"
abbreviation "BogusSize \<equiv> Failed ''Bogus size''"
abbreviation "InvalidSize \<equiv> Failed ''Invalid size''"
abbreviation "BogusTypeIdx \<equiv> Failed ''Bogus type_idx''"
abbreviation "BadIndex \<equiv> Failed ''Bad index''"
abbreviation "BogusAddr \<equiv> Failed ''Bogus addr''"
abbreviation "InvalidAddr \<equiv> Failed ''Invalid addr''"
abbreviation "BogusCatchAllAddr \<equiv> Failed ''Bogus catch_all_addr''"
abbreviation "InvalidCatchAllAddr \<equiv> Failed ''Invalid catch_all_addr''"
abbreviation "NoValidHandlers \<equiv> Failed ''handler list ends at offset 0''"
abbreviation "OutOfOrderTry \<equiv> Failed ''Out-of-order try''"
abbreviation "InvalidStartAddr \<equiv> Failed ''Invalid start_addr''"
abbreviation "BogusHandlerOffset \<equiv> Failed ''Bogus handler offset''"
abbreviation "InvalidInsnCount \<equiv> Failed ''Invalid insn_count''"

text \<open>
  Modelled from the spec: the code item and the try record are declared in the library's
  file-format header, which is not among the sources. A code item starts with four \<open>u2\<close>
  counts and two \<open>u4\<close> fields (16 bytes), followed by the instruction words; the record
  type has room for one instruction word and is 20 bytes. The tries follow the
  instructions, on a four-byte boundary; the encoded catch handlers follow the tries.
\<close>

record DexCode =
  dc_registersSize :: u2
  dc_insSize :: u2
  dc_outsSize :: u2
  dc_triesSize :: u2
  dc_debugInfoOff :: u4
  dc_insnsSize :: u4

record DexTry =
  startAddr :: u4
  insnCount :: u2
  handlerOff :: u2

definition sizeofDexCode :: nat where "sizeofDexCode = 20"
definition insnsOffset :: nat where "insnsOffset = 16"
definition sizeofDexTry :: nat where "sizeofDexTry = 8"

definition codeAt :: "bool \<Rightarrow> u1 list \<Rightarrow> nat \<Rightarrow> DexCode" where
  "codeAt be mem p =
     \<lparr>dc_registersSize = hostU2 be (take 2 (drop p mem)),
      dc_insSize = hostU2 be (take 2 (drop (p + 2) mem)),
      dc_outsSize = hostU2 be (take 2 (drop (p + 4) mem)),
      dc_triesSize = hostU2 be (take 2 (drop (p + 6) mem)),
      dc_debugInfoOff = hostU4 be (take 4 (drop (p + 8) mem)),
      dc_insnsSize = hostU4 be (take 4 (drop (p + 12) mem))\<rparr>"

definition tryAt :: "bool \<Rightarrow> u1 list \<Rightarrow> nat \<Rightarrow> DexTry" where
  "tryAt be mem p =
     \<lparr>startAddr = hostU4 be (take 4 (drop p mem)),
      insnCount = hostU2 be (take 2 (drop (p + 4) mem)),
      handlerOff = hostU2 be (take 2 (drop (p + 6) mem))\<rparr>"

text \<open>
  \<open>dexGetTries\<close> and \<open>dexGetCatchHandlerData\<close> for the code item at \<open>p\<close>, whose counts have been
  swapped already.
\<close>

definition dexGetTries :: "nat \<Rightarrow> DexCode \<Rightarrow> nat" where
  "dexGetTries p code =
     (let insnsEnd = p + insnsOffset + 2 * unat (dc_insnsSize code)
      in if insnsEnd mod 4 \<noteq> 0 then insnsEnd + 2 else insnsEnd)"

definition dexGetCatchHandlerData :: "nat \<Rightarrow> DexCode \<Rightarrow> nat" where
  "dexGetCatchHandlerData p code =
     dexGetTries p code + sizeofDexTry * unat (dc_triesSize code)"

text \<open>
  The loop \<open>while (size-- > 0)\<close> of \<open>setHandlerOffsAndVerify\<close> over the typed catches of one
  handler, \<open>n\<close> of them from \<open>ptr\<close> on; it gives the pointer behind them.
\<close>

fun verifyCatches :: "CheckState \<Rightarrow> DexCode \<Rightarrow> nat \<Rightarrow> nat \<Rightarrow> failure + nat" where
  "verifyCatches state code 0 ptr = Inr ptr"
| "verifyCatches state code (Suc n) ptr =
     bindE (readAndVerifyUnsignedLeb128 (fileStart state) ptr (unat (fileLen state)))
       (\<lambda>(typeIdx, ptr1, okay).
          if \<not> okay then Inl BogusTypeIdx
          else if typeIdsSize (pHeader state) \<le> typeIdx then Inl BadIndex
          else
            bindE (readAndVerifyUnsignedLeb128 (fileStart state) ptr1 (unat (fileLen state)))
              (\<lambda>(addr, ptr2, okay2).
                 if \<not> okay2 then Inl BogusAddr
                 else if dc_insnsSize code \<le> addr then Inl InvalidAddr
                 else verifyCatches state code n ptr2))"

text \<open>
  The body of the \<open>for\<close> loop of \<open>setHandlerOffsAndVerify\<close>: one handler at \<open>offset\<close> from
  \<open>handlersBase\<close>. \<open>size\<close> is an \<open>int\<close>. It gives the offset behind the handler.
\<close>

definition verifyHandler :: "CheckState \<Rightarrow> DexCode \<Rightarrow> nat \<Rightarrow> u4 \<Rightarrow> failure + u4" where
  "verifyHandler state code handlersBase offset =
     bindE (readAndVerifySignedLeb128 (fileStart state) (handlersBase + unat offset)
              (unat (fileLen state)))
       (\<lambda>(sizeWord, ptr, okay).
          let size = sint sizeWord in
          if \<not> okay then Inl BogusSize
          else if size < - 65536 \<or> 65536 < size then Inl InvalidSize
          else
            (let catchAll = (size \<le> 0);
                 n = nat (if size \<le> 0 then - size else size)
             in bindE (verifyCatches state code n ptr) (\<lambda>ptr1.
                  bindE
                    (if catchAll then
                       bindE (readAndVerifyUnsignedLeb128 (fileStart state) ptr1
                                (unat (fileLen state)))
                         (\<lambda>(addr, ptr2, okay2).
                            if \<not> okay2 then Inl BogusCatchAllAddr
                            else if dc_insnsSize code \<le> addr then Inl InvalidCatchAllAddr
                            else Inr ptr2)
                     else Inr ptr1)
                    (\<lambda>ptr3. Inr (of_nat (ptr3 - handlersBase) :: u4)))))"

text \<open>
  The \<open>for\<close> loop over the handlers still to come; it gives the final offset and the
  entries written to \<open>handlerOffs\<close>, in order.
\<close>

fun verifyHandlers ::
  "CheckState \<Rightarrow> DexCode \<Rightarrow> nat \<Rightarrow> nat \<Rightarrow> u4 \<Rightarrow> failure + (u4 \<times> u4 list)" where
  "verifyHandlers state code handlersBase 0 offset = Inr (offset, [])"
| "verifyHandlers state code handlersBase (Suc n) offset =
     bindE (verifyHandler state code handlersBase offset) (\<lambda>offset'.
       bindE (verifyHandlers state code handlersBase n offset') (\<lambda>(endOffset, offs).
         Inr (endOffset, offset # offs)))"

text \<open>
  \<open>setHandlerOffsAndVerify\<close> returns 0 when a check fails: here the reason. \<open>p\<close> is the
  pointer to the code item.
\<close>

definition setHandlerOffsAndVerify ::
  "CheckState \<Rightarrow> nat \<Rightarrow> DexCode \<Rightarrow> u4 \<Rightarrow> u4 \<Rightarrow> failure + (u4 \<times> u4 list)" where
  "setHandlerOffsAndVerify state p code firstOffset handlersSize =
     verifyHandlers state code (dexGetCatchHandlerData p code) (unat handlersSize) firstOffset"

definition swapTry :: "bool \<Rightarrow> DexTry \<Rightarrow> DexTry" where
  "swapTry be t =
     \<lparr>startAddr = SWAP4 be (startAddr t), insnCount = SWAP2 be (insnCount t),
      handlerOff = SWAP2 be (handlerOff t)\<rparr>"

text \<open>
  The \<open>while (count--)\<close> loop of \<open>swapTriesAndCatches\<close> over the tries still to come, as the
  host reads them; it carries \<open>lastEnd\<close> and gives the swapped tries. The sum
  \<open>startAddr + insnCount\<close> is a \<open>u4\<close> and wraps.
\<close>

fun swapTries :: "bool \<Rightarrow> DexCode \<Rightarrow> u4 list \<Rightarrow> DexTry list \<Rightarrow> u4 \<Rightarrow> failure + DexTry list"
  where
  "swapTries be code handlerOffs [] lastEnd = Inr []"
| "swapTries be code handlerOffs (raw # rest) lastEnd =
     (let t = swapTry be raw in
      if startAddr t < lastEnd then Inl OutOfOrderTry
      else if dc_insnsSize code \<le> startAddr t then Inl InvalidStartAddr
      else if ucast (handlerOff t) \<notin> set handlerOffs then Inl BogusHandlerOffset
      else
        (let lastEnd' = startAddr t + ucast (insnCount t) in
         if dc_insnsSize code < lastEnd' then Inl InvalidInsnCount
         else bindE (swapTries be code handlerOffs rest lastEnd') (\<lambda>rest'. Inr (t # rest'))))"

text \<open>
  \<open>swapTriesAndCatches\<close> for the code item at \<open>p\<close>. The tries are read from the buffer as the
  host reads them; the result is the pointer behind the handlers, and the swapped tries.
\<close>

definition swapTriesAndCatches ::
  "bool \<Rightarrow> CheckState \<Rightarrow> nat \<Rightarrow> DexCode \<Rightarrow> failure + (nat \<times> DexTry list)" where
  "swapTriesAndCatches be state p code =
     (let encodedHandlers = dexGetCatchHandlerData p code in
      bindE (readAndVerifyUnsignedLeb128 (fileStart state) encodedHandlers
               (unat (fileLen state)))
        (\<lambda>(handlersSize, encodedPtr, okay).
           if \<not> okay then Inl BogusHandlersSize
           else if handlersSize = 0 \<or> 65536 \<le> handlersSize then Inl InvalidHandlersSize
           else
             bindE (setHandlerOffsAndVerify state p code
                      (of_nat (encodedPtr - encodedHandlers)) handlersSize)
               (\<lambda>(endOffset, handlerOffs).
                  if endOffset = 0 then Inl NoValidHandlers
                  else
                    (let tries = dexGetTries p code;
                         count = (ucast (dc_triesSize code) :: u4)
                     in if \<not> checkListSize state tries count sizeofDexTry
                        then Inl BadListSize
                        else if length (fileStart state) < tries + sizeofDexTry * unat count
                        then Inl ReadOutsideBuffer
                        else
                          bindE (swapTries be code handlerOffs
                                   (map (\<lambda>i. tryAt be (fileStart state)
                                                 (tries + sizeofDexTry * i))
                                      [0 ..< unat count]) 0)
                            (\<lambda>swapped. Inr (encodedHandlers + unat endOffset, swapped))))))"

definition swapCode :: "bool \<Rightarrow> DexCode \<Rightarrow> DexCode" where
  "swapCode be c =
     \<lparr>dc_registersSize = SWAP2 be (dc_registersSize c), dc_insSize = SWAP2 be (dc_insSize c),
      dc_outsSize = SWAP2 be (dc_outsSize c), dc_triesSize = SWAP2 be (dc_triesSize c),
      dc_debugInfoOff = SWAP4 be (dc_debugInfoOff c),
      dc_insnsSize = SWAP4 be (dc_insnsSize c)\<rparr>"

text \<open>
  \<open>swapCodeItem\<close> for the code item at \<open>ptr\<close>. The result is the pointer behind the item, and
  what the swap leaves in the buffer: the counts, the instruction words and the tries.
  The buffer starts at a four-byte boundary, so a pointer is aligned when its offset is.
\<close>

definition swapCodeItem ::
  "bool \<Rightarrow> CheckState \<Rightarrow> nat \<Rightarrow> failure + (nat \<times> DexCode \<times> u2 list \<times> DexTry list)" where
  "swapCodeItem be state ptr =
     (if \<not> checkPtrRange state ptr (ptr + sizeofDexCode) then Inl BadOffsetRange
      else if length (fileStart state) < ptr + sizeofDexCode then Inl ReadOutsideBuffer
      else
        (let item = swapCode be (codeAt be (fileStart state) ptr);
             count = dc_insnsSize item;
             insns = ptr + insnsOffset
         in if \<not> checkListSize state insns count 2 then Inl BadListSize
            else if length (fileStart state) < insns + 2 * unat count
            then Inl ReadOutsideBuffer
            else
              (let swappedInsns = map (\<lambda>i. SWAP2 be (hostU2 be
                                          (take 2 (drop (insns + 2 * i) (fileStart state)))))
                                    [0 ..< unat count];
                   insnsEnd = insns + 2 * unat count
               in if dc_triesSize item = 0 then Inr (insnsEnd, item, swappedInsns, [])
                  else
                    bindE (if insnsEnd mod 4 \<noteq> 0 then
                             bindE (readU2 be (fileStart state) insnsEnd) (\<lambda>spacer.
                               if spacer \<noteq> 0 then Inl NonZeroPadding else Inr ())
                           else Inr ())
                      (\<lambda>_. bindE (swapTriesAndCatches be state ptr item) (\<lambda>(p', tries).
                              Inr (p', item, swappedInsns, tries))))))"

text \<open>
  For the statements about the handler list, in the words of the format: each handler
  is a signed size, then that many (type index, catch address) pairs (the absolute value,
  when the size is not positive), then a catch-all address when the size is not
  positive. \<open>handlerEntries\<close> lists, for the \<open>n\<close> handlers from \<open>offset\<close> on, the offset of
  each handler with its pairs and its catch-all address, as the readers decode them.
\<close>

fun catchPairs :: "u1 list \<Rightarrow> nat \<Rightarrow> nat \<Rightarrow> nat \<Rightarrow> (u4 \<times> u4) list \<times> nat" where
  "catchPairs mem limit 0 ptr = ([], ptr)"
| "catchPairs mem limit (Suc n) ptr =
     (case readAndVerifyUnsignedLeb128 mem ptr limit of
        Inl e \<Rightarrow> ([], ptr)
      | Inr (typeIdx, ptr1, okay) \<Rightarrow>
          (case readAndVerifyUnsignedLeb128 mem ptr1 limit of
             Inl e \<Rightarrow> ([], ptr)
           | Inr (addr, ptr2, okay2) \<Rightarrow>
               (let (ps, ptr') = catchPairs mem limit n ptr2 in ((typeIdx, addr) # ps, ptr'))))"

record handlerEntry =
  he_offset :: u4
  he_pairs :: "(u4 \<times> u4) list"
  he_catchAll :: "u4 option"

fun handlerEntries :: "u1 list \<Rightarrow> nat \<Rightarrow> nat \<Rightarrow> nat \<Rightarrow> u4 \<Rightarrow> handlerEntry list" where
  "handlerEntries mem limit handlersBase 0 offset = []"
| "handlerEntries mem limit handlersBase (Suc n) offset =
     (case readAndVerifySignedLeb128 mem (handlersBase + unat offset) limit of
        Inl e \<Rightarrow> []
      | Inr (sizeWord, ptr, okay) \<Rightarrow>
          (let size = sint sizeWord;
               (ps, ptr1) = catchPairs mem limit (nat \<bar>size\<bar>) ptr
           in if size \<le> 0 then
                (case readAndVerifyUnsignedLeb128 mem ptr1 limit of
                   Inl e \<Rightarrow> []
                 | Inr (addr, ptr2, okay2) \<Rightarrow>
                     \<lparr>he_offset = offset, he_pairs = ps, he_catchAll = Some addr\<rparr>
                     # handlerEntries mem limit handlersBase n (of_nat (ptr2 - handlersBase)))
              else
                \<lparr>he_offset = offset, he_pairs = ps, he_catchAll = None\<rparr>
                # handlerEntries mem limit handlersBase n (of_nat (ptr1 - handlersBase))))"

text \<open>
  What the claim asks of the handlers and of the tries, with sums of natural numbers:
  every type index below the size of the type table and every catch address below the
  instruction count; every try starts at or after the end of the one before and below
  the instruction count, ends at or below the instruction count and names one of the
  tabulated handler offsets.
\<close>

definition handlerOk :: "u4 \<Rightarrow> u4 \<Rightarrow> handlerEntry \<Rightarrow> bool" where
  "handlerOk typeIds insns h =
     (list_all (\<lambda>(typeIdx, addr). typeIdx < typeIds \<and> addr < insns) (he_pairs h)
      \<and> (case he_catchAll h of None \<Rightarrow> True | Some addr \<Rightarrow> addr < insns))"

fun triesInOrder :: "nat \<Rightarrow> u4 list \<Rightarrow> nat \<Rightarrow> DexTry list \<Rightarrow> bool" where
  "triesInOrder insns offs lastEnd [] = True"
| "triesInOrder insns offs lastEnd (t # ts) =
     (lastEnd \<le> unat (startAddr t) \<and> unat (startAddr t) < insns
      \<and> unat (startAddr t) + unat (insnCount t) \<le> insns
      \<and> ucast (handlerOff t) \<in> set offs
      \<and> triesInOrder insns offs (unat (startAddr t) + unat (insnCount t)) ts)"

text \<open>
  An example code item, alone in a buffer of 32 bytes: one register, two instruction
  words, one try over both instructions with the handler at offset 1, and a handler list
  of one handler with one typed catch (type index 0, address 1). The type table of the
  example header has one entry.
\<close>

definition exampleHeader :: DexHeader where
  "exampleHeader =
     \<lparr>checksum = 0, fileSize = 0, headerSize = 0, endianTag = 0, linkSize = 0, linkOff = 0,
      mapOff = 0, stringIdsSize = 0, stringIdsOff = 0, typeIdsSize = 1, typeIdsOff = 0,
      fieldIdsSize = 0, fieldIdsOff = 0, methodIdsSize = 0, methodIdsOff = 0,
      protoIdsSize = 0, protoIdsOff = 0, classDefsSize = 0, classDefsOff = 0,
      dataSize = 0, dataOff = 0\<rparr>"

definition exampleCodeBytes :: "u1 list" where
  "exampleCodeBytes =
     [0x01, 0x00, 0x00, 0x00, 0x00, 0x00, 0x01, 0x00,
      0x00, 0x00, 0x00, 0x00, 0x02, 0x00, 0x00, 0x00,
      0x00, 0x00, 0x0e, 0x00,
      0x00, 0x00, 0x00, 0x00, 0x02, 0x00, 0x01, 0x00,
      0x01, 0x01, 0x00, 0x01]"

definition exampleCodeState :: CheckState where
  "exampleCodeState =
     \<lparr>pHeader = exampleHeader, fileStart = exampleCodeBytes, fileLen = 32, pDataMap = [],
      pDefinedClassBits = None, previousItem = None\<rparr>"

definition exampleCode :: DexCode where
  "exampleCode =
     \<lparr>dc_registersSize = 1, dc_insSize = 0, dc_outsSize = 0, dc_triesSize = 1,
      dc_debugInfoOff = 0, dc_insnsSize = 2\<rparr>"

text \<open>
  A buffer of 112 bytes, the size of the header, for a little-endian host: the magic
  number and version, a zero checksum and signature, the declared file size
  \<open>0x80000000\<close> at offset 32, the header size and the endian tag; the rest is zero.
\<close>

definition hugeSizeHeader :: "u1 list" where
  "hugeSizeHeader =
     [0x64, 0x65, 0x78, 0x0a, 0x30, 0x33, 0x35, 0x00,
      0x00, 0x00, 0x00, 0x00, 0x00, 0x00, 0x00, 0x00,
      0x00, 0x00, 0x00, 0x00, 0x00, 0x00, 0x00, 0x00,
      0x00, 0x00, 0x00, 0x00, 0x00, 0x00, 0x00, 0x00,
      0x00, 0x00, 0x00, 0x80, 0x70, 0x00, 0x00, 0x00,
      0x78, 0x56, 0x34, 0x12, 0x00, 0x00, 0x00, 0x00,
      0x00, 0x00, 0x00, 0x00, 0x00, 0x00, 0x00, 0x00,
      0x00, 0x00, 0x00, 0x00, 0x00, 0x00, 0x00, 0x00,
      0x00, 0x00, 0x00, 0x00, 0x00, 0x00, 0x00, 0x00,
      0x00, 0x00, 0x00, 0x00, 0x00, 0x00, 0x00, 0x00,
      0x00, 0x00, 0x00, 0x00, 0x00, 0x00, 0x00, 0x00,
      0x00, 0x00, 0x00, 0x00, 0x00, 0x00, 0x00, 0x00,
      0x00, 0x00, 0x00, 0x00, 0x00, 0x00, 0x00, 0x00,
      0x00, 0x00, 0x00, 0x00, 0x00, 0x00, 0x00, 0x00]"

text \<open>
  A file of 140 bytes for a little-endian host, with a correct checksum: the header, and
  at offset \<open>0x70\<close> a map of two entries that are out of order, first the map itself at
  offset \<open>0x70\<close> and then the header at offset 0. \<open>disorderedMap\<close> is this map as the host
  reads it.
\<close>

definition disorderedMapDex :: "u1 list" where
  "disorderedMapDex =
     [0x64, 0x65, 0x78, 0x0a, 0x30, 0x33, 0x35, 0x00,
      0x91, 0x03, 0x2f, 0x15, 0x00, 0x00, 0x00, 0x00,
      0x00, 0x00, 0x00, 0x00, 0x00, 0x00, 0x00, 0x00,
      0x00, 0x00, 0x00, 0x00, 0x00, 0x00, 0x00, 0x00,
      0x8c, 0x00, 0x00, 0x00, 0x70, 0x00, 0x00, 0x00,
      0x78, 0x56, 0x34, 0x12, 0x00, 0x00, 0x00, 0x00,
      0x00, 0x00, 0x00, 0x00, 0x70, 0x00, 0x00, 0x00,
      0x00, 0x00, 0x00, 0x00, 0x00, 0x00, 0x00, 0x00,
      0x00, 0x00, 0x00, 0x00, 0x00, 0x00, 0x00, 0x00,
      0x00, 0x00, 0x00, 0x00, 0x00, 0x00, 0x00, 0x00,
      0x00, 0x00, 0x00, 0x00, 0x00, 0x00, 0x00, 0x00,
      0x00, 0x00, 0x00, 0x00, 0x00, 0x00, 0x00, 0x00,
      0x00, 0x00, 0x00, 0x00, 0x00, 0x00, 0x00, 0x00,
      0x1c, 0x00, 0x00, 0x00, 0x70, 0x00, 0x00, 0x00,
      0x02, 0x00, 0x00, 0x00, 0x00, 0x10, 0x00, 0x00,
      0x01, 0x00, 0x00, 0x00, 0x70, 0x00, 0x00, 0x00,
      0x00, 0x00, 0x00, 0x00, 0x01, 0x00, 0x00, 0x00,
      0x00, 0x00, 0x00, 0x00]"

definition disorderedMap :: DexMapList where
  "disorderedMap =
     \<lparr>ml_size = 2,
      ml_list = [\<lparr>mi_type = 0x1000, mi_unused = 0, mi_size = 1, mi_offset = 0x70\<rparr>,
                 \<lparr>mi_type = 0x0000, mi_unused = 0, mi_size = 1, mi_offset = 0\<rparr>]\<rparr>"





section \<open>Properties of the C string functions\<close>

lemma strcmp_eq0: "strcmp a b = 0 \<longleftrightarrow> a = b"
  by (induction a b rule: strcmp.induct) auto

lemma strrchr_None: "strrchr s c = None \<longleftrightarrow> c \<notin> set s"
  by (induction s) (auto split: option.splits)

lemma strrchr_Some:
  "strrchr s c = Some k \<Longrightarrow> k < length s \<and> s ! k = c \<and> c \<notin> set (drop (Suc k) s)"
proof (induction s arbitrary: k)
  case Nil
  then show ?case by simp
next
  case (Cons x xs)
  show ?case
  proof (cases "strrchr xs c")
    case None
    with Cons.prems have "x = c" "k = 0" by (auto split: if_splits)
    moreover from None have "c \<notin> set xs" by (simp add: strrchr_None)
    ultimately show ?thesis by simp
  next
    case (Some i)
    with Cons.prems have k: "k = Suc i" by simp
    from Cons.IH[OF Some] show ?thesis by (simp add: k)
  qed
qed

lemma strrchr_append: "c \<notin> set l \<Longrightarrow> strrchr (p @ c # l) c = Some (length p)"
proof (induction p)
  case Nil
  then have "strrchr l c = None" by (simp add: strrchr_None)
  then show ?case by simp
next
  case (Cons x p)
  then show ?case by simp
qed

section \<open>Local-variable slots\<close>

text \<open>
  C6. The outgoing map sends a variable named exactly "this" to slot 0, any other
  variable in register 0 to slot 1000, and every other register to itself; the incoming
  map sends 1000 to register 0, 0 to \<open>registersSize - insSize\<close> and every other slot to
  itself. For a method with \<open>registersSize = 5\<close> and \<open>insSize = 2\<close>, "this" in register 3 is
  reported as slot 0, which resolves back to 3, and another local in register 0 is
  reported as slot 1000, which resolves back to 0.
\<close>

theorem slot_remapping:
  "tweakSlot slot ''this'' = 0
   \<and> (name \<noteq> ''this'' \<longrightarrow> tweakSlot 0 name = 1000)
   \<and> (name \<noteq> ''this'' \<and> slot \<noteq> 0 \<longrightarrow> tweakSlot slot name = slot)
   \<and> untweakSlot 1000 m = 0
   \<and> untweakSlot 0 m = uint (registersSize m) - uint (insSize m)
   \<and> (slot \<noteq> 1000 \<and> slot \<noteq> 0 \<longrightarrow> untweakSlot slot m = slot)
   \<and> (registersSize m = 5 \<and> insSize m = 2 \<longrightarrow>
        tweakSlot 3 ''this'' = 0 \<and> untweakSlot (tweakSlot 3 ''this'') m = 3
        \<and> (name \<noteq> ''this'' \<longrightarrow>
             tweakSlot 0 name = 1000 \<and> untweakSlot (tweakSlot 0 name) m = 0))"
  by (simp add: tweakSlot_def untweakSlot_def kSlot0Sub_def strcmp_eq0)

theorem slot_remapping_witness:
  "tweakSlot 3 ''this'' = 0 \<and> tweakSlot 0 ''x'' = 1000 \<and> tweakSlot 7 ''x'' = 7
   \<and> untweakSlot 7 \<lparr>registersSize = 5, insSize = 2\<rparr> = 7
   \<and> untweakSlot (tweakSlot 3 ''this'') \<lparr>registersSize = 5, insSize = 2\<rparr> = 3
   \<and> untweakSlot (tweakSlot 0 ''x'') \<lparr>registersSize = 5, insSize = 2\<rparr> = 0"
  using slot_remapping [of 7 "''x''" "\<lparr>registersSize = 5, insSize = 2\<rparr>"]
    slot_remapping [of 3 "''x''" "\<lparr>registersSize = 5, insSize = 2\<rparr>"]
  by simp

section \<open>Class information\<close>

text \<open>
  C9, as the claim states it, fails: a class that is only loaded, not yet verified, is
  reported with the verified bit set, so the status reported for a class that is neither
  an array nor in the error state is not its actual verified status.
\<close>

theorem class_info_loaded_counterexample:
  "\<not> ((snd (dvmDbgGetClassInfo
            \<lparr>descriptor = ''Ljava/lang/Object;'', status = CLASS_LOADED,
             isInterfaceClass = False\<rparr>) AND CS_VERIFIED \<noteq> 0)
       \<longleftrightarrow> dvmIsClassVerified CLASS_LOADED)"
  by (simp add: dvmDbgGetClassInfo_def CS_VERIFIED_def CS_PREPARED_def CS_INITIALIZED_def)

text \<open>
  C9, amended. A class whose descriptor begins with '[' is reported with the fixed status
  verified+prepared and the array type tag; every other class is reported with the error
  status when it is in the error state and with the fixed status
  verified+prepared+initialized otherwise, whatever its actual state.
\<close>

theorem class_info_status:
  "(take 1 (descriptor clazz) = ''['' \<longrightarrow>
      dvmDbgGetClassInfo clazz = (TT_ARRAY, CS_VERIFIED OR CS_PREPARED))
   \<and> (take 1 (descriptor clazz) \<noteq> ''['' \<and> status clazz = CLASS_ERROR \<longrightarrow>
      snd (dvmDbgGetClassInfo clazz) = CS_ERROR)
   \<and> (take 1 (descriptor clazz) \<noteq> ''['' \<and> status clazz \<noteq> CLASS_ERROR \<longrightarrow>
      snd (dvmDbgGetClassInfo clazz) = CS_VERIFIED OR CS_PREPARED OR CS_INITIALIZED)"
  by (cases "descriptor clazz") (simp_all add: dvmDbgGetClassInfo_def)

theorem class_info_status_witness:
  "dvmDbgGetClassInfo \<lparr>descriptor = ''[I'', status = CLASS_INITIALIZED,
       isInterfaceClass = False\<rparr> = (3, 3)
   \<and> snd (dvmDbgGetClassInfo \<lparr>descriptor = ''LFoo;'', status = CLASS_ERROR,
       isInterfaceClass = False\<rparr>) = 8
   \<and> snd (dvmDbgGetClassInfo \<lparr>descriptor = ''LFoo;'', status = CLASS_VERIFYING,
       isInterfaceClass = True\<rparr>) = 7"
  using class_info_status [of "\<lparr>descriptor = ''[I'', status = CLASS_INITIALIZED,
       isInterfaceClass = False\<rparr>"]
    class_info_status [of "\<lparr>descriptor = ''LFoo;'', status = CLASS_ERROR,
       isInterfaceClass = False\<rparr>"]
    class_info_status [of "\<lparr>descriptor = ''LFoo;'', status = CLASS_VERIFYING,
       isInterfaceClass = True\<rparr>"]
  by (simp add: TT_ARRAY_def CS_VERIFIED_def CS_PREPARED_def CS_INITIALIZED_def CS_ERROR_def)

section \<open>Method invocation in a stopped thread\<close>

lemma threadObjToThread_None:
  "threadObjToThread ts obj = None \<longleftrightarrow> obj \<notin> threadObj ` set ts"
  by (induction ts) auto

lemma threadObjToThread_Some:
  "threadObjToThread ts obj = Some i \<Longrightarrow> i < length ts \<and> threadObj (ts ! i) = obj"
  by (induction ts arbitrary: i) (auto split: if_splits)

text \<open>
  C5. \<open>dvmDbgInvokeMethod\<close> returns the invalid-thread error when no thread of the list
  belongs to the thread object that the identifier stands for (its low 32 bits), or when the thread found has an invocation request that
  is not ready, and the thread-suspended error when the thread found is ready and its
  suspend count is above 1. In all three cases the thread list, and with it every
  invocation request, is returned as it was: no field is written and \<open>invokeNeeded\<close> is
  not set, whatever the other threads would have done.
\<close>

theorem invoke_rejected:
  "(objectIdToObject threadId \<notin> threadObj ` set threadList \<longrightarrow>
      dvmDbgInvokeMethod handoff threadList threadId objectId classId methodId numArgs
        argArray options = (ERR_INVALID_THREAD, threadList))
   \<and> (threadObjToThread threadList (objectIdToObject threadId) = Some i
       \<and> \<not> req_ready (invokeReq (threadList ! i)) \<longrightarrow>
      dvmDbgInvokeMethod handoff threadList threadId objectId classId methodId numArgs
        argArray options = (ERR_INVALID_THREAD, threadList))
   \<and> (threadObjToThread threadList (objectIdToObject threadId) = Some i
       \<and> req_ready (invokeReq (threadList ! i)) \<and> 1 < suspendCount (threadList ! i) \<longrightarrow>
      dvmDbgInvokeMethod handoff threadList threadId objectId classId methodId numArgs
        argArray options = (ERR_THREAD_SUSPENDED, threadList))"
  by (simp add: dvmDbgInvokeMethod_def threadObjToThread_None [symmetric] Let_def)

theorem invoke_rejected_witness:
  "dvmDbgInvokeMethod (\<lambda>i ts. []) exampleThreads 0xc100003000 0xc100004000 2 3 0 [] 0
     = (ERR_INVALID_THREAD, exampleThreads)
   \<and> dvmDbgInvokeMethod (\<lambda>i ts. []) exampleThreads 0xc100001000 0xc100004000 2 3 0 [] 0
     = (ERR_INVALID_THREAD, exampleThreads)
   \<and> dvmDbgInvokeMethod (\<lambda>i ts. []) exampleThreads 0xc100002000 0xc100004000 2 3 0 [] 0
     = (ERR_THREAD_SUSPENDED, exampleThreads)"
  using invoke_rejected [of "0xc100003000" exampleThreads "\<lambda>i ts. []" "0xc100004000"
      2 3 0 "[]" 0 0]
    invoke_rejected [of "0xc100001000" exampleThreads "\<lambda>i ts. []" "0xc100004000"
      2 3 0 "[]" 0 0]
    invoke_rejected [of "0xc100002000" exampleThreads "\<lambda>i ts. []" "0xc100004000"
      2 3 0 "[]" 0 1]
  by (simp add: exampleThreads_def exampleReq_def objectIdToObject_def)

section \<open>Qualified names\<close>

lemma matchesQName_iff:
  "matchesQName e q \<longleftrightarrow>
     (if CHR '':'' \<notin> set q \<or> mPrefix e = [] then q = mLocalName e
      else q = mPrefix e @ CHR '':'' # mLocalName e \<and> CHR '':'' \<notin> set (mLocalName e))"
proof (cases "strrchr q CHR '':''")
  case None
  then have "CHR '':'' \<notin> set q" by (simp add: strrchr_None)
  with None show ?thesis by (simp add: matchesQName_def strcmp_eq0)
next
  case (Some k)
  then have in_q: "CHR '':'' \<in> set q" using strrchr_None[of q "CHR '':''"] by auto
  from strrchr_Some[OF Some]
  have k: "k < length q" "q ! k = CHR '':''" "CHR '':'' \<notin> set (drop (Suc k) q)" by auto
  have q: "q = take k q @ CHR '':'' # drop (Suc k) q"
    using k id_take_nth_drop[of k q] by simp
  show ?thesis
  proof (cases "mPrefix e = []")
    case True
    then show ?thesis using Some by (simp add: matchesQName_def strcmp_eq0)
  next
    case False
    have m: "matchesQName e q \<longleftrightarrow>
        length (mPrefix e) = k \<and> take k q = take k (mPrefix e) \<and> drop (Suc k) q = mLocalName e"
      using False Some by (simp add: matchesQName_def strcmp_eq0 strncmp_def strlen_def)
    have "(length (mPrefix e) = k \<and> take k q = take k (mPrefix e)
            \<and> drop (Suc k) q = mLocalName e)
       \<longleftrightarrow> (q = mPrefix e @ CHR '':'' # mLocalName e \<and> CHR '':'' \<notin> set (mLocalName e))"
      (is "?A \<longleftrightarrow> ?B")
    proof
      assume a: ?A
      then have "take k q = mPrefix e" by simp
      with q a k(3) show ?B by simp
    next
      assume b: ?B
      then have "strrchr q CHR '':'' = Some (length (mPrefix e))"
        using strrchr_append[of "CHR '':''" "mLocalName e" "mPrefix e"] by simp
      with Some have kk: "k = length (mPrefix e)" by simp
      from b have "take (length (mPrefix e)) q = mPrefix e"
        "drop (Suc (length (mPrefix e))) q = mLocalName e"
        by simp_all
      with kk show ?A by simp
    qed
    with m False in_q show ?thesis by simp
  qed
qed

text \<open>
  C7, as the claim states it, fails: for the attribute with prefix "html" and local name
  "h1", the query "h1" without a colon matches, although the attribute has a prefix.
\<close>

theorem matchesQName_no_colon_counterexample:
  "\<not> (matchesQName \<lparr>mUri = ''http://www.w3.org/1999/xhtml'', mLocalName = ''h1'',
                     mPrefix = ''html''\<rparr> ''h1''
       \<longrightarrow> mPrefix \<lparr>mUri = ''http://www.w3.org/1999/xhtml'', mLocalName = ''h1'',
                     mPrefix = ''html''\<rparr> = [])"
  by (simp add: matchesQName_def)

text \<open>
  C7, amended. For the attribute with prefix "html" and local name "h1", the query
  "html:h1" matches, the query "h1" without a colon matches as well (as it does for the
  attribute without a prefix), and the query "xyz:h1" does not match. The rule: when the
  query has no colon or the attribute has no prefix, only the local names are compared,
  and the query matches exactly when it equals the local name. Otherwise the query is
  split at its last colon and both parts are compared: it matches exactly when it is the
  prefix, a colon and the local name, and the local name has no colon of its own.
\<close>

theorem matchesQName_rule:
  "matchesQName \<lparr>mUri = u, mLocalName = ''h1'', mPrefix = ''html''\<rparr> ''html:h1''
   \<and> matchesQName \<lparr>mUri = u, mLocalName = ''h1'', mPrefix = ''html''\<rparr> ''h1''
   \<and> matchesQName \<lparr>mUri = u, mLocalName = ''h1'', mPrefix = []\<rparr> ''h1''
   \<and> \<not> matchesQName \<lparr>mUri = u, mLocalName = ''h1'', mPrefix = ''html''\<rparr> ''xyz:h1''
   \<and> (CHR '':'' \<notin> set q \<or> mPrefix e = [] \<longrightarrow>
        matchesQName e q = (q = mLocalName e))
   \<and> (CHR '':'' \<in> set q \<and> mPrefix e \<noteq> [] \<longrightarrow>
        matchesQName e q =
          (q = mPrefix e @ CHR '':'' # mLocalName e \<and> CHR '':'' \<notin> set (mLocalName e)))"
  by (simp add: matchesQName_iff)

theorem matchesQName_rule_witness:
  "CHR '':'' \<in> set ''html:h1''
   \<and> matchesQName \<lparr>mUri = [], mLocalName = ''h1'', mPrefix = ''html''\<rparr> ''html:h1''
   \<and> CHR '':'' \<notin> set ''h2''
   \<and> \<not> matchesQName \<lparr>mUri = [], mLocalName = ''h1'', mPrefix = ''html''\<rparr> ''h2''"
  using matchesQName_rule [of "[]" "''html:h1''"
      "\<lparr>mUri = [], mLocalName = ''h1'', mPrefix = ''html''\<rparr>"]
    matchesQName_rule [of "[]" "''h2''"
      "\<lparr>mUri = [], mLocalName = ''h1'', mPrefix = ''html''\<rparr>"]
  by simp

section \<open>The name stack\<close>




lemma push_flags: "processNamespaces (stringStackPush out pc s) = processNamespaces pc"
  by (simp add: stringStackPush_def Let_def)





lemma callbacks_append: "callbacks out pc (xs @ ys) = callbacks out (callbacks out pc xs) ys"
  by (simp add: callbacks_def)

lemma callbacks_Cons: "callbacks out pc (x # xs) = callbacks out (callback out pc x) xs"
  by (simp add: callbacks_def)












section \<open>String data items\<close>

lemma nat_nibble:
  fixes n :: nat
  assumes "n < 256"
  shows "(n div 16 = 0 \<and> n \<noteq> 0 \<longrightarrow> n < 128)"
    "(n div 16 = 1 \<or> n div 16 = 2 \<or> n div 16 = 3 \<or> n div 16 = 4 \<or> n div 16 = 5 \<or> n div 16 = 6 \<or> n div 16 = 7 \<longrightarrow> n \<noteq> 0 \<and> n < 128)"
    "(n div 16 = 14 \<longrightarrow> 224 \<le> n \<and> n < 240)"
    "(n div 16 \<noteq> 0 \<and> \<not> (n div 16 = 1 \<or> n div 16 = 2 \<or> n div 16 = 3 \<or> n div 16 = 4 \<or> n div 16 = 5 \<or> n div 16 = 6 \<or> n div 16 = 7)
      \<and> \<not> (n div 16 = 8 \<or> n div 16 = 9 \<or> n div 16 = 10 \<or> n div 16 = 11 \<or> n div 16 = 15) \<and> n div 16 \<noteq> 14
        \<longrightarrow> 192 \<le> n \<and> n < 224)"
proof -
  define q where "q = n div 16"
  define r where "r = n mod 16"
  have n: "n = 16 * q + r" and r: "r < 16" by (simp_all add: q_def r_def)
  have q: "q < 16" using assms n by linarith
  show "(n div 16 = 0 \<and> n \<noteq> 0 \<longrightarrow> n < 128)" unfolding q_def[symmetric] using n r by linarith
  show "(n div 16 = 1 \<or> n div 16 = 2 \<or> n div 16 = 3 \<or> n div 16 = 4 \<or> n div 16 = 5 \<or> n div 16 = 6 \<or> n div 16 = 7 \<longrightarrow> n \<noteq> 0 \<and> n < 128)"
    unfolding q_def[symmetric] using n r by linarith
  show "(n div 16 = 14 \<longrightarrow> 224 \<le> n \<and> n < 240)" unfolding q_def[symmetric] using n r by linarith
  show "(n div 16 \<noteq> 0 \<and> \<not> (n div 16 = 1 \<or> n div 16 = 2 \<or> n div 16 = 3 \<or> n div 16 = 4 \<or> n div 16 = 5 \<or> n div 16 = 6 \<or> n div 16 = 7)
      \<and> \<not> (n div 16 = 8 \<or> n div 16 = 9 \<or> n div 16 = 10 \<or> n div 16 = 11 \<or> n div 16 = 15) \<and> n div 16 \<noteq> 14
        \<longrightarrow> 192 \<le> n \<and> n < 224)"
    unfolding q_def[symmetric]
  proof
    assume a: "q \<noteq> 0 \<and> \<not> (q = 1 \<or> q = 2 \<or> q = 3 \<or> q = 4 \<or> q = 5 \<or> q = 6 \<or> q = 7)
      \<and> \<not> (q = 8 \<or> q = 9 \<or> q = 10 \<or> q = 11 \<or> q = 15) \<and> q \<noteq> 14"
    then have d: "q \<noteq> 0" "q \<noteq> 1" "q \<noteq> 2" "q \<noteq> 3" "q \<noteq> 4" "q \<noteq> 5" "q \<noteq> 6"
      "q \<noteq> 7" "q \<noteq> 8" "q \<noteq> 9" "q \<noteq> 10" "q \<noteq> 11" "q \<noteq> 15" "q \<noteq> 14"
      by blast+
    from d(1-4) have "4 \<le> q" by linarith
    with d(5-8) have "8 \<le> q" by linarith
    with d(9-12) have "12 \<le> q" by linarith
    moreover from d(13,14) q have "q \<le> 13" by linarith
    ultimately show "192 \<le> n \<and> n < 224" using n r by linarith
  qed
qed

lemma unitLength_nibble:
  fixes b :: u1
  shows "(drop_bit 4 b = 0 \<and> b \<noteq> 0 \<longrightarrow> unitLength b = Some 1)
   \<and> (drop_bit 4 b \<in> {0x01, 0x02, 0x03, 0x04, 0x05, 0x06, 0x07} \<longrightarrow> unitLength b = Some 1)
   \<and> (drop_bit 4 b = 0x0e \<longrightarrow> unitLength b = Some 3)
   \<and> (drop_bit 4 b \<noteq> 0 \<and> drop_bit 4 b \<notin> {0x01, 0x02, 0x03, 0x04, 0x05, 0x06, 0x07}
        \<and> drop_bit 4 b \<notin> {0x08, 0x09, 0x0a, 0x0b, 0x0f} \<and> drop_bit 4 b \<noteq> 0x0e
        \<longrightarrow> unitLength b = Some 2)"
proof -
  have u: "unat (drop_bit 4 b) = unat b div 16"
    by (simp add: drop_bit_eq_div unat_div)
  have lt: "unat b < 256" using unsigned_less[of b, where 'a=nat] by simp
  have eqs: "\<And>k. k < 256 \<Longrightarrow> (drop_bit 4 b = of_nat k) = (unat b div 16 = k)"
    unfolding word_unat_eq_iff u by (simp add: unat_of_nat)
  have e: "(drop_bit 4 b = 0) = (unat b div 16 = 0)" "(drop_bit 4 b = 1) = (unat b div 16 = 1)"
   "(drop_bit 4 b = 2) = (unat b div 16 = 2)" "(drop_bit 4 b = 3) = (unat b div 16 = 3)"
   "(drop_bit 4 b = 4) = (unat b div 16 = 4)" "(drop_bit 4 b = 5) = (unat b div 16 = 5)"
   "(drop_bit 4 b = 6) = (unat b div 16 = 6)" "(drop_bit 4 b = 7) = (unat b div 16 = 7)"
   "(drop_bit 4 b = 8) = (unat b div 16 = 8)" "(drop_bit 4 b = 9) = (unat b div 16 = 9)"
   "(drop_bit 4 b = 10) = (unat b div 16 = 10)" "(drop_bit 4 b = 11) = (unat b div 16 = 11)"
   "(drop_bit 4 b = 14) = (unat b div 16 = 14)" "(drop_bit 4 b = 15) = (unat b div 16 = 15)"
    using eqs[of 0] eqs[of 1] eqs[of 2] eqs[of 3] eqs[of 4] eqs[of 5] eqs[of 6] eqs[of 7]
      eqs[of 8] eqs[of 9] eqs[of 10] eqs[of 11] eqs[of 14] eqs[of 15] by simp_all
  have ul: "unitLength b = (if unat b = 0 then None else if unat b < 128 then Some 1
      else if 192 \<le> unat b \<and> unat b < 224 then Some 2
      else if 224 \<le> unat b \<and> unat b < 240 then Some 3 else None)"
    by (simp add: unitLength_def word_unat_eq_iff word_less_nat_alt word_le_nat_alt)
  note nn = nat_nibble[OF lt]
  have c1: "drop_bit 4 b = 0 \<and> b \<noteq> 0 \<longrightarrow> unitLength b = Some 1"
    unfolding e ul using nn(1) by (simp add: word_unat_eq_iff)
  have c2: "drop_bit 4 b \<in> {0x01, 0x02, 0x03, 0x04, 0x05, 0x06, 0x07} \<longrightarrow> unitLength b = Some 1"
    unfolding insert_iff empty_iff e ul using nn(2) by auto
  have c3: "drop_bit 4 b = 0x0e \<longrightarrow> unitLength b = Some 3"
    unfolding e ul using nn(3) by auto
  have c4: "drop_bit 4 b \<noteq> 0 \<and> drop_bit 4 b \<notin> {0x01, 0x02, 0x03, 0x04, 0x05, 0x06, 0x07}
        \<and> drop_bit 4 b \<notin> {0x08, 0x09, 0x0a, 0x0b, 0x0f} \<and> drop_bit 4 b \<noteq> 0x0e
        \<longrightarrow> unitLength b = Some 2"
    unfolding insert_iff empty_iff e ul using nn(4) by auto
  from c1 c2 c3 c4 show ?thesis by blast
qed

lemma stringDataUnits_skipUnits: "stringDataUnits mem n d = Inr d' \<Longrightarrow> skipUnits mem n d = Some d'"
proof (induction mem n d rule: stringDataUnits.induct)
  case (1 mem data)
  then show ?case by simp
next
  case (2 mem n data)
  from "2.prems" have lt: "\<not> length mem \<le> data" by (auto split: if_splits)
  let ?b = "mem ! data"
  let ?h = "drop_bit 4 ?b"
  note nf = unitLength_nibble[of ?b]
  consider (z) "?h = 0" | (one) "?h \<noteq> 0" "?h \<in> {0x01, 0x02, 0x03, 0x04, 0x05, 0x06, 0x07}"
    | (bad) "?h \<noteq> 0" "?h \<notin> {0x01, 0x02, 0x03, 0x04, 0x05, 0x06, 0x07}" "?h \<in> {0x08, 0x09, 0x0a, 0x0b, 0x0f}"
    | (three) "?h \<noteq> 0" "?h \<notin> {0x01, 0x02, 0x03, 0x04, 0x05, 0x06, 0x07}" "?h \<notin> {0x08, 0x09, 0x0a, 0x0b, 0x0f}" "?h = 0x0e"
    | (two) "?h \<noteq> 0" "?h \<notin> {0x01, 0x02, 0x03, 0x04, 0x05, 0x06, 0x07}" "?h \<notin> {0x08, 0x09, 0x0a, 0x0b, 0x0f}" "?h \<noteq> 0x0e"
    by blast
  then show ?case
  proof cases
    case z
    with "2.prems" lt have nz: "?b \<noteq> 0" and r: "stringDataUnits mem n (data + 1) = Inr d'"
      by (auto simp: Let_def split: if_splits)
    from "2.IH"(1)[OF lt refl refl z nz r] have "skipUnits mem n (data + 1) = Some d'" .
    moreover from nf z nz have "unitLength ?b = Some 1" by blast
    ultimately show ?thesis using lt by simp
  next
    case one
    with "2.prems" lt have r: "stringDataUnits mem n (data + 1) = Inr d'"
      by (simp add: Let_def)
    from "2.IH"(2)[OF lt refl refl one r] have "skipUnits mem n (data + 1) = Some d'" .
    moreover from nf one have "unitLength ?b = Some 1" by blast
    ultimately show ?thesis using lt by simp
  next
    case bad
    with "2.prems" lt show ?thesis by (simp add: Let_def)
  next
    case three
    from "2.prems" lt three obtain byte2 byte3 where
      b2: "readU1 mem (data + 1) = Inr byte2" "\<not> byte2 AND 0xc0 \<noteq> 0x80"
      and b3: "readU1 mem (data + 2) = Inr byte3" "\<not> byte3 AND 0xc0 \<noteq> 0x80"
      and v: "\<not> (push_bit 12 (ucast (?b AND 0x0f)) OR push_bit 6 (ucast (byte2 AND 0x3f)) OR
                           ucast (byte3 AND 0x3f) :: u2) < 0x800"
      and r: "stringDataUnits mem n (data + 3) = Inr d'"
      by (auto simp: Let_def bindE_def split: if_splits sum.splits)
    from "2.IH"(3)[OF lt refl refl three(1,2,3,4) b2(2) b3(2) refl v r]
    have "skipUnits mem n (data + 3) = Some d'" .
    moreover from nf three have "unitLength ?b = Some 3" by blast
    ultimately show ?thesis using lt by simp
  next
    case two
    from "2.prems" lt two obtain byte2 where
      b2: "readU1 mem (data + 1) = Inr byte2" "\<not> byte2 AND 0xc0 \<noteq> 0x80"
      and v: "\<not> ((push_bit 6 (ucast (?b AND 0x1f)) OR ucast (byte2 AND 0x3f) :: u2) \<noteq> 0
               \<and> (push_bit 6 (ucast (?b AND 0x1f)) OR ucast (byte2 AND 0x3f) :: u2) < 0x80)"
      and r: "stringDataUnits mem n (data + 2) = Inr d'"
      by (auto simp: Let_def bindE_def split: if_splits sum.splits)
    from "2.IH"(4)[OF lt refl refl two(1,2,3,4) b2(2) refl v r]
    have "skipUnits mem n (data + 2) = Some d'" .
    moreover from nf two have "unitLength ?b = Some 2" by blast
    ultimately show ?thesis using lt by simp
  qed
qed


text \<open>
  C4, as the claim states it, fails: with \<open>utf16_size = 1\<close>, the payload \<open>0xC1 0xBF\<close> (the
  two-byte encoding of the code point \<open>0x7F\<close>) followed by a zero byte is rejected as an
  illegal representation, the value being non-zero and below \<open>0x80\<close>.
\<close>

theorem string_data_two_byte_7F_counterexample:
  "intraVerifyStringDataItem [0x01, 0xC1, 0xBF, 0x00] 0 = Inl IllegalRepresentation"
  by code_simp

text \<open>
  C4, amended. A string data item that declares \<open>utf16_size = 1\<close> and whose payload is the
  single byte \<open>0x7F\<close> followed by a zero byte is accepted; with the same declared size, a
  payload that ends (zero byte) one unit early is rejected as shorter than indicated, and
  one with a non-zero byte where the terminating zero should be is rejected as longer
  than indicated. An accepted item holds exactly the declared number of logical units,
  followed by a zero byte, and the pointer returned is behind that byte.
\<close>

theorem string_data_units:
  "intraVerifyStringDataItem [0x01, 0x7F, 0x00] 0 = Inr 3
   \<and> intraVerifyStringDataItem [0x01, 0x00] 0 = Inl StringShorterThanIndicated
   \<and> intraVerifyStringDataItem [0x01, 0x7F, 0x41] 0 = Inl StringLongerThanIndicated
   \<and> (intraVerifyStringDataItem mem ptr = Inr p \<longrightarrow>
        (\<exists>utf16Size data.
            readAndVerifyUnsignedLeb128 mem ptr (length mem) = Inr (utf16Size, data, True)
            \<and> skipUnits mem (unat utf16Size) data = Some (p - 1)
            \<and> 0 < p \<and> p - 1 < length mem \<and> mem ! (p - 1) = 0))"
proof -
  have a: "intraVerifyStringDataItem [0x01, 0x7F, 0x00] 0 = Inr 3"
    by code_simp
  have b: "intraVerifyStringDataItem [0x01, 0x00] 0 = Inl StringShorterThanIndicated"
    by code_simp
  have c: "intraVerifyStringDataItem [0x01, 0x7F, 0x41] 0 = Inl StringLongerThanIndicated"
    by code_simp
  have d: "\<exists>utf16Size data.
            readAndVerifyUnsignedLeb128 mem ptr (length mem) = Inr (utf16Size, data, True)
            \<and> skipUnits mem (unat utf16Size) data = Some (p - 1)
            \<and> 0 < p \<and> p - 1 < length mem \<and> mem ! (p - 1) = 0"
    if ok: "intraVerifyStringDataItem mem ptr = Inr p"
  proof -
    from ok obtain utf16Size data data' where
      r: "readAndVerifyUnsignedLeb128 mem ptr (length mem) = Inr (utf16Size, data, True)"
      and u: "stringDataUnits mem (unat utf16Size) data = Inr data'"
      and z: "readU1 mem data' = Inr 0" and p: "p = data' + 1"
      by (auto simp: intraVerifyStringDataItem_def bindE_def split: sum.splits if_splits)
    from z have "data' < length mem" "mem ! data' = 0"
      by (auto simp: readU1_def split: if_splits)
    with r p stringDataUnits_skipUnits[OF u] show ?thesis by simp
  qed
  from a b c d show ?thesis by blast
qed

theorem string_data_units_witness:
  "intraVerifyStringDataItem [0x01, 0x7F, 0x00] 0 = Inr 3
   \<and> (\<exists>utf16Size data.
          readAndVerifyUnsignedLeb128 [0x01, 0x7F, 0x00] 0 3 = Inr (utf16Size, data, True)
          \<and> skipUnits [0x01, 0x7F, 0x00] (unat utf16Size) data = Some 2)"
  using string_data_units [of "[0x01, 0x7F, 0x00]" 0 3]
  by (simp add: numeral_3_eq_3 numeral_2_eq_2)

section \<open>Results of checks\<close>

lemma bindE_Inr: "bindE m f = Inr r \<longleftrightarrow> (\<exists>x. m = Inr x \<and> f x = Inr r)"
  by (cases m) (simp_all add: bindE_def)

lemma bindE_assoc: "bindE (bindE m f) g = bindE m (\<lambda>x. bindE (f x) g)"
  by (cases m) (simp_all add: bindE_def)

lemma bindE_simps [simp]: "bindE (Inr x) f = f x" "bindE (Inl e) f = Inl e"
  by (simp_all add: bindE_def)

section \<open>Code items, tries and catch handlers\<close>

lemma verifyCatches_ok:
  "verifyCatches state code n ptr = Inr p \<Longrightarrow>
     \<exists>ps. catchPairs (fileStart state) (unat (fileLen state)) n ptr = (ps, p)
        \<and> list_all (\<lambda>(typeIdx, addr). typeIdx < typeIdsSize (pHeader state)
                                       \<and> addr < dc_insnsSize code) ps"
proof (induction n arbitrary: ptr)
  case 0
  then show ?case by simp
next
  case (Suc n)
  let ?mem = "fileStart state" and ?lim = "unat (fileLen state)"
  from Suc.prems obtain typeIdx ptr1 addr ptr2 where
    r1: "readAndVerifyUnsignedLeb128 ?mem ptr ?lim = Inr (typeIdx, ptr1, True)"
    and t: "typeIdx < typeIdsSize (pHeader state)"
    and r2: "readAndVerifyUnsignedLeb128 ?mem ptr1 ?lim = Inr (addr, ptr2, True)"
    and a: "addr < dc_insnsSize code"
    and rest: "verifyCatches state code n ptr2 = Inr p"
    by (auto simp: bindE_Inr not_le split: if_splits)
  from Suc.IH[OF rest] obtain ps where
    ps: "catchPairs ?mem ?lim n ptr2 = (ps, p)"
    "list_all (\<lambda>(typeIdx, addr). typeIdx < typeIdsSize (pHeader state)
                                       \<and> addr < dc_insnsSize code) ps" by blast
  show ?case using r1 r2 t a ps by simp
qed


lemma verifyHandler_ok:
  assumes "verifyHandler state code base offset = Inr offset'"
  shows "\<exists>h. handlerEntries (fileStart state) (unat (fileLen state)) base (Suc n) offset
           = h # handlerEntries (fileStart state) (unat (fileLen state)) base n offset'
         \<and> he_offset h = offset
         \<and> handlerOk (typeIdsSize (pHeader state)) (dc_insnsSize code) h"
proof -
  let ?mem = "fileStart state" and ?lim = "unat (fileLen state)"
  from assms obtain x where
    r0: "readAndVerifySignedLeb128 ?mem (base + unat offset) ?lim = Inr x"
    and f0: "(case x of (sizeWord, ptr, okay) \<Rightarrow>
          let size = sint sizeWord in
          if \<not> okay then Inl BogusSize
          else if size < - 65536 \<or> 65536 < size then Inl InvalidSize
          else
            (let catchAll = (size \<le> 0);
                 n = nat (if size \<le> 0 then - size else size)
             in bindE (verifyCatches state code n ptr) (\<lambda>ptr1.
                  bindE
                    (if catchAll then
                       bindE (readAndVerifyUnsignedLeb128 (fileStart state) ptr1
                                (unat (fileLen state)))
                         (\<lambda>(addr, ptr2, okay2).
                            if \<not> okay2 then Inl BogusCatchAllAddr
                            else if dc_insnsSize code \<le> addr then Inl InvalidCatchAllAddr
                            else Inr ptr2)
                     else Inr ptr1)
                    (\<lambda>ptr3. Inr (of_nat (ptr3 - base) :: u4))))) = Inr offset'"
    unfolding verifyHandler_def bindE_Inr by blast
  obtain sizeWord ptr okay where x: "x = (sizeWord, ptr, okay)" by (cases x)
  from f0 x have okay: okay by (simp add: Let_def split: if_splits)
  from f0 x okay have f1: "bindE (verifyCatches state code
              (nat (if sint sizeWord \<le> 0 then - sint sizeWord else sint sizeWord)) ptr) (\<lambda>ptr1.
                  bindE
                    (if sint sizeWord \<le> 0 then
                       bindE (readAndVerifyUnsignedLeb128 (fileStart state) ptr1
                                (unat (fileLen state)))
                         (\<lambda>(addr, ptr2, okay2).
                            if \<not> okay2 then Inl BogusCatchAllAddr
                            else if dc_insnsSize code \<le> addr then Inl InvalidCatchAllAddr
                            else Inr ptr2)
                     else Inr ptr1)
                    (\<lambda>ptr3. Inr (of_nat (ptr3 - base) :: u4))) = Inr offset'"
    by (simp add: Let_def split: if_splits)
  from r0 x okay have
    r: "readAndVerifySignedLeb128 ?mem (base + unat offset) ?lim = Inr (sizeWord, ptr, True)"
    by simp
  from f1 obtain ptr1 where
    c: "verifyCatches state code
              (nat (if sint sizeWord \<le> 0 then - sint sizeWord else sint sizeWord)) ptr = Inr ptr1"
    and f2: "bindE
                    (if sint sizeWord \<le> 0 then
                       bindE (readAndVerifyUnsignedLeb128 (fileStart state) ptr1
                                (unat (fileLen state)))
                         (\<lambda>(addr, ptr2, okay2).
                            if \<not> okay2 then Inl BogusCatchAllAddr
                            else if dc_insnsSize code \<le> addr then Inl InvalidCatchAllAddr
                            else Inr ptr2)
                     else Inr ptr1)
                    (\<lambda>ptr3. Inr (of_nat (ptr3 - base) :: u4)) = Inr offset'"
    unfolding bindE_Inr[of "verifyCatches state code
              (nat (if sint sizeWord \<le> 0 then - sint sizeWord else sint sizeWord)) ptr"] by blast
  from f2 obtain ptr3 where
    ca: "(if sint sizeWord \<le> 0 then
                       bindE (readAndVerifyUnsignedLeb128 ?mem ptr1 ?lim)
                         (\<lambda>(addr, ptr2, okay2).
                            if \<not> okay2 then Inl BogusCatchAllAddr
                            else if dc_insnsSize code \<le> addr then Inl InvalidCatchAllAddr
                            else Inr ptr2)
                     else Inr ptr1) = Inr ptr3"
    and o: "offset' = of_nat (ptr3 - base)"
    by (cases "(if sint sizeWord \<le> 0 then
                       bindE (readAndVerifyUnsignedLeb128 ?mem ptr1 ?lim)
                         (\<lambda>(addr, ptr2, okay2).
                            if \<not> okay2 then Inl BogusCatchAllAddr
                            else if dc_insnsSize code \<le> addr then Inl InvalidCatchAllAddr
                            else Inr ptr2)
                     else Inr ptr1)") auto
  have n: "nat (if sint sizeWord \<le> 0 then - sint sizeWord else sint sizeWord) = nat \<bar>sint sizeWord\<bar>"
    by simp
  from verifyCatches_ok[OF c] obtain ps where
    ps: "catchPairs ?mem ?lim (nat \<bar>sint sizeWord\<bar>) ptr = (ps, ptr1)"
    "list_all (\<lambda>(typeIdx, addr). typeIdx < typeIdsSize (pHeader state)
                                       \<and> addr < dc_insnsSize code) ps"
    unfolding n by blast
  show ?thesis
  proof (cases "sint sizeWord \<le> 0")
    case True
    with ca have "bindE (readAndVerifyUnsignedLeb128 ?mem ptr1 ?lim)
                         (\<lambda>(addr, ptr2, okay2).
                            if \<not> okay2 then Inl BogusCatchAllAddr
                            else if dc_insnsSize code \<le> addr then Inl InvalidCatchAllAddr
                            else Inr ptr2) = Inr ptr3" by simp
    then obtain y where y: "readAndVerifyUnsignedLeb128 ?mem ptr1 ?lim = Inr y"
      and fy: "(case y of (addr, ptr2, okay2) \<Rightarrow>
                            if \<not> okay2 then Inl BogusCatchAllAddr
                            else if dc_insnsSize code \<le> addr then Inl InvalidCatchAllAddr
                            else Inr ptr2) = Inr ptr3"
      unfolding bindE_Inr by blast
    obtain addr ptr2 okay2 where yy: "y = (addr, ptr2, okay2)" by (cases y)
    from fy yy y have
      r2: "readAndVerifyUnsignedLeb128 ?mem ptr1 ?lim = Inr (addr, ptr3, True)"
      and a: "addr < dc_insnsSize code"
      by (simp_all add: not_le split: if_splits)
    show ?thesis using r ps r2 a True o
      by (simp add: handlerOk_def)
  next
    case False
    with ca have "ptr3 = ptr1" by simp
    then show ?thesis using r ps False o
      by (simp add: handlerOk_def)
  qed
qed

lemma verifyHandlers_ok:
  "verifyHandlers state code base n offset = Inr (endOffset, offs) \<Longrightarrow>
     length (handlerEntries (fileStart state) (unat (fileLen state)) base n offset) = n
     \<and> map he_offset (handlerEntries (fileStart state) (unat (fileLen state)) base n offset) = offs
     \<and> list_all (handlerOk (typeIdsSize (pHeader state)) (dc_insnsSize code))
          (handlerEntries (fileStart state) (unat (fileLen state)) base n offset)"
proof (induction n arbitrary: offset endOffset offs)
  case 0
  then show ?case by simp
next
  case (Suc n)
  from Suc.prems obtain offset' offs' where
    h: "verifyHandler state code base offset = Inr offset'"
    and r: "verifyHandlers state code base n offset' = Inr (endOffset, offs')"
    and o: "offs = offset # offs'"
    by (auto simp: bindE_Inr)
  from verifyHandler_ok[OF h, of n] obtain he where
    he: "handlerEntries (fileStart state) (unat (fileLen state)) base (Suc n) offset
           = he # handlerEntries (fileStart state) (unat (fileLen state)) base n offset'"
    "he_offset he = offset"
    "handlerOk (typeIdsSize (pHeader state)) (dc_insnsSize code) he" by blast
  from Suc.IH[OF r] he o show ?case by (simp del: handlerEntries.simps)
qed

lemma swapTries_ok:
  assumes "unat (dc_insnsSize code) < 2 ^ 31"
  shows "swapTries be code offs raws lastEnd = Inr ts \<Longrightarrow>
     ts = map (swapTry be) raws
     \<and> triesInOrder (unat (dc_insnsSize code)) offs (unat lastEnd) ts"
proof (induction raws arbitrary: lastEnd ts)
  case Nil
  then show ?case by simp
next
  case (Cons raw rest)
  define t where "t = swapTry be raw"
  from Cons.prems obtain rest' where
    a: "lastEnd \<le> startAddr t" and b: "startAddr t < dc_insnsSize code"
    and h: "ucast (handlerOff t) \<in> set offs"
    and e: "startAddr t + ucast (insnCount t) \<le> dc_insnsSize code"
    and r: "swapTries be code offs rest (startAddr t + ucast (insnCount t)) = Inr rest'"
    and ts: "ts = t # rest'"
    by (auto simp: Let_def bindE_Inr t_def[symmetric] not_less not_le split: if_splits)
  have c16: "unat (insnCount t) < 2 ^ 16" using unsigned_less[of "insnCount t", where 'a=nat] by simp
  from b have sb: "unat (startAddr t) < unat (dc_insnsSize code)" by (simp add: word_less_nat_alt)
  have "unat (insnCount t) < 2 ^ 32" using c16 by simp
  then have uc: "unat (ucast (insnCount t) :: u4) = unat (insnCount t)"
    by (simp add: unsigned_ucast_eq take_bit_nat_eq_self)
  have sum: "unat (startAddr t + ucast (insnCount t)) = unat (startAddr t) + unat (insnCount t)"
    using sb assms c16 by (simp add: unat_word_ariths uc)
  from e have le: "unat (startAddr t) + unat (insnCount t) \<le> unat (dc_insnsSize code)"
    by (simp add: word_le_nat_alt sum)
  from a have la: "unat lastEnd \<le> unat (startAddr t)" by (simp add: word_le_nat_alt)
  note ih = Cons.IH[OF r, unfolded sum]
  from ih have r1: "rest' = map (swapTry be) rest" by blast
  from ih have r2: "triesInOrder (unat (dc_insnsSize code)) offs
      (unat (startAddr t) + unat (insnCount t)) rest'" by blast
  have "triesInOrder (unat (dc_insnsSize code)) offs (unat lastEnd) (t # rest')"
    using la sb le h r2 by simp
  then show ?case unfolding ts using r1 by (simp add: t_def)
qed


lemma swapTriesAndCatches_ok:
  assumes ok: "swapTriesAndCatches be state p code = Inr (p', tries)"
    and nw: "unat (dc_insnsSize code) < 2 ^ 31"
  shows "\<exists>handlersSize encodedPtr.
      readAndVerifyUnsignedLeb128 (fileStart state) (dexGetCatchHandlerData p code)
          (unat (fileLen state)) = Inr (handlersSize, encodedPtr, True)
      \<and> 0 < handlersSize \<and> handlersSize < 65536
      \<and> length (handlerEntries (fileStart state) (unat (fileLen state))
            (dexGetCatchHandlerData p code) (unat handlersSize)
            (of_nat (encodedPtr - dexGetCatchHandlerData p code))) = unat handlersSize
      \<and> list_all (handlerOk (typeIdsSize (pHeader state)) (dc_insnsSize code))
            (handlerEntries (fileStart state) (unat (fileLen state))
              (dexGetCatchHandlerData p code) (unat handlersSize)
              (of_nat (encodedPtr - dexGetCatchHandlerData p code)))
      \<and> tries = map (\<lambda>i. swapTry be (tryAt be (fileStart state)
                                (dexGetTries p code + sizeofDexTry * i)))
                    [0 ..< unat (dc_triesSize code)]
      \<and> triesInOrder (unat (dc_insnsSize code))
            (map he_offset (handlerEntries (fileStart state) (unat (fileLen state))
              (dexGetCatchHandlerData p code) (unat handlersSize)
              (of_nat (encodedPtr - dexGetCatchHandlerData p code)))) 0 tries"
proof -
  let ?mem = "fileStart state" and ?lim = "unat (fileLen state)"
  let ?base = "dexGetCatchHandlerData p code"
  from ok obtain x where
    r0: "readAndVerifyUnsignedLeb128 ?mem ?base ?lim = Inr x"
    and f0: "(case x of (handlersSize, encodedPtr, okay) \<Rightarrow>
           if \<not> okay then Inl BogusHandlersSize
           else if handlersSize = 0 \<or> 65536 \<le> handlersSize then Inl InvalidHandlersSize
           else
             bindE (setHandlerOffsAndVerify state p code
                      (of_nat (encodedPtr - ?base)) handlersSize)
               (\<lambda>(endOffset, handlerOffs).
                  if endOffset = 0 then Inl NoValidHandlers
                  else
                    (let tries = dexGetTries p code;
                         count = (ucast (dc_triesSize code) :: u4)
                     in if \<not> checkListSize state tries count sizeofDexTry
                        then Inl BadListSize
                        else if length (fileStart state) < tries + sizeofDexTry * unat count
                        then Inl ReadOutsideBuffer
                        else
                          bindE (swapTries be code handlerOffs
                                   (map (\<lambda>i. tryAt be (fileStart state)
                                                 (tries + sizeofDexTry * i))
                                      [0 ..< unat count]) 0)
                            (\<lambda>swapped. Inr (?base + unat endOffset, swapped))))) = Inr (p', tries)"
    unfolding swapTriesAndCatches_def Let_def
      bindE_Inr[of "readAndVerifyUnsignedLeb128 ?mem ?base ?lim"] by blast
  obtain handlersSize encodedPtr okay where x: "x = (handlersSize, encodedPtr, okay)"
    by (cases x)
  from f0 x have okay: okay and hs0: "handlersSize \<noteq> 0" and hs1: "handlersSize < 65536"
    by (simp_all add: not_le split: if_splits)
  from hs0 have hs0': "0 < handlersSize" by (simp add: word_greater_zero_iff)
  let ?first = "of_nat (encodedPtr - ?base) :: u4"
  from hs1 have nle: "\<not> 65536 \<le> handlersSize" by (simp add: not_le)
  from f0 x okay hs0 nle have f1:
    "bindE (setHandlerOffsAndVerify state p code ?first handlersSize)
               (\<lambda>(endOffset, handlerOffs).
                  if endOffset = 0 then Inl NoValidHandlers
                  else
                    (let tries = dexGetTries p code;
                         count = (ucast (dc_triesSize code) :: u4)
                     in if \<not> checkListSize state tries count sizeofDexTry
                        then Inl BadListSize
                        else if length (fileStart state) < tries + sizeofDexTry * unat count
                        then Inl ReadOutsideBuffer
                        else
                          bindE (swapTries be code handlerOffs
                                   (map (\<lambda>i. tryAt be (fileStart state)
                                                 (tries + sizeofDexTry * i))
                                      [0 ..< unat count]) 0)
                            (\<lambda>swapped. Inr (?base + unat endOffset, swapped)))) = Inr (p', tries)"
    by (simp add: not_le)
  then obtain y where
    s0: "setHandlerOffsAndVerify state p code ?first handlersSize = Inr y"
    and f2: "(case y of (endOffset, handlerOffs) \<Rightarrow>
                  if endOffset = 0 then Inl NoValidHandlers
                  else
                    (let tries = dexGetTries p code;
                         count = (ucast (dc_triesSize code) :: u4)
                     in if \<not> checkListSize state tries count sizeofDexTry
                        then Inl BadListSize
                        else if length (fileStart state) < tries + sizeofDexTry * unat count
                        then Inl ReadOutsideBuffer
                        else
                          bindE (swapTries be code handlerOffs
                                   (map (\<lambda>i. tryAt be (fileStart state)
                                                 (tries + sizeofDexTry * i))
                                      [0 ..< unat count]) 0)
                            (\<lambda>swapped. Inr (?base + unat endOffset, swapped)))) = Inr (p', tries)"
    unfolding bindE_Inr[of "setHandlerOffsAndVerify state p code ?first handlersSize"] by blast
  obtain endOffset handlerOffs where y: "y = (endOffset, handlerOffs)" by (cases y)
  let ?count = "ucast (dc_triesSize code) :: u4"
  from f2 y have f3:
    "bindE (swapTries be code handlerOffs
              (map (\<lambda>i. tryAt be (fileStart state) (dexGetTries p code + sizeofDexTry * i))
                 [0 ..< unat ?count]) 0)
        (\<lambda>swapped. Inr (?base + unat endOffset, swapped)) = Inr (p', tries)"
    by (simp add: Let_def split: if_splits)
  then have st: "swapTries be code handlerOffs
              (map (\<lambda>i. tryAt be (fileStart state) (dexGetTries p code + sizeofDexTry * i))
                 [0 ..< unat ?count]) 0 = Inr tries"
    by (cases "swapTries be code handlerOffs
              (map (\<lambda>i. tryAt be (fileStart state) (dexGetTries p code + sizeofDexTry * i))
                 [0 ..< unat ?count]) 0") simp_all
  have "unat (dc_triesSize code) < 2 ^ 16"
    using unsigned_less[of "dc_triesSize code", where 'a=nat] by simp
  then have "unat (dc_triesSize code) < 2 ^ 32" by simp
  then have cnt: "unat ?count = unat (dc_triesSize code)"
    by (simp add: unsigned_ucast_eq take_bit_nat_eq_self)
  from s0 y have vh: "verifyHandlers state code ?base (unat handlersSize) ?first
      = Inr (endOffset, handlerOffs)"
    by (simp add: setHandlerOffsAndVerify_def)
  note h = verifyHandlers_ok[OF vh]
  have u0: "unat (0 :: u4) = 0" by simp
  note t = swapTries_ok[OF nw st, unfolded cnt u0]
  from h have h1: "map he_offset (handlerEntries ?mem ?lim ?base (unat handlersSize) ?first)
       = handlerOffs" by blast
  from r0 x okay have r: "readAndVerifyUnsignedLeb128 ?mem ?base ?lim
      = Inr (handlersSize, encodedPtr, True)" by simp
  from t have t0: "tries = map (swapTry be) (map (\<lambda>i. tryAt be (fileStart state)
                                (dexGetTries p code + sizeofDexTry * i))
                    [0 ..< unat (dc_triesSize code)])" by blast
  have t1: "tries = map (\<lambda>i. swapTry be (tryAt be (fileStart state)
                                (dexGetTries p code + sizeofDexTry * i)))
                    [0 ..< unat (dc_triesSize code)]"
    unfolding t0 by (simp add: comp_def)
  from t have t2: "triesInOrder (unat (dc_insnsSize code)) handlerOffs 0 tries" by blast
  show ?thesis
    apply (rule exI[of _ handlersSize], rule exI[of _ encodedPtr])
    using r hs0' hs1 h t1 t2 unfolding h1 by blast
qed

lemmas leb_defs = readAndVerifyUnsignedLeb128_def readUnsignedLeb128_def
  readAndVerifySignedLeb128_def readSignedLeb128_def signExtend_def readU1_def

lemma ex_len: "length exampleCodeBytes = 32" by (simp add: exampleCodeBytes_def)

lemma ex_code: "swapCode False (codeAt False exampleCodeBytes 0) = exampleCode"
  by (simp add: swapCode_def codeAt_def SWAP2_def SWAP4_def hostU2_def hostU4_def
      exampleCodeBytes_def exampleCode_def)

lemma ex_leb1: "readAndVerifyUnsignedLeb128 exampleCodeBytes 28 32 = Inr (1, 29, True)"
  by (simp add: leb_defs exampleCodeBytes_def)

lemma ex_leb2: "readAndVerifySignedLeb128 exampleCodeBytes 29 32 = Inr (1, 30, True)"
  by (simp add: leb_defs exampleCodeBytes_def)

lemma ex_leb3: "readAndVerifyUnsignedLeb128 exampleCodeBytes 30 32 = Inr (0, 31, True)"
  by (simp add: leb_defs exampleCodeBytes_def)

lemma ex_leb4: "readAndVerifyUnsignedLeb128 exampleCodeBytes 31 32 = Inr (1, 32, True)"
  by (simp add: leb_defs exampleCodeBytes_def)


lemma ex_state: "fileStart exampleCodeState = exampleCodeBytes"
  "unat (fileLen exampleCodeState) = 32" "typeIdsSize (pHeader exampleCodeState) = 1"
  by (simp_all add: exampleCodeState_def exampleHeader_def)

lemma ex_ptrs: "dexGetTries 0 exampleCode = 20" "dexGetCatchHandlerData 0 exampleCode = 28"
  by (simp_all add: dexGetTries_def dexGetCatchHandlerData_def exampleCode_def
      insnsOffset_def sizeofDexTry_def)

lemma ex_fields: "dc_triesSize exampleCode = 1" "dc_insnsSize exampleCode = 2"
  by (simp_all add: exampleCode_def)

lemma ex_catches: "verifyCatches exampleCodeState exampleCode (Suc 0) 30 = Inr 32"
  by (simp add: ex_state ex_leb3 ex_leb4 exampleCode_def word_le_nat_alt)

lemma ex_handler: "verifyHandler exampleCodeState exampleCode 28 1 = Inr 4"
  by (simp add: verifyHandler_def ex_state ex_leb2 ex_leb3 ex_leb4 exampleCode_def
      word_le_nat_alt)

lemma ex_handlers:
  "setHandlerOffsAndVerify exampleCodeState 0 exampleCode 1 1 = Inr (4, [1])"
  by (simp add: setHandlerOffsAndVerify_def ex_ptrs ex_handler)

lemma ex_try: "tryAt False exampleCodeBytes 20 = \<lparr>startAddr = 0, insnCount = 2, handlerOff = 1\<rparr>"
  by (simp add: tryAt_def hostU2_def hostU4_def exampleCodeBytes_def)

lemma ex_tries:
  "swapTriesAndCatches False exampleCodeState 0 exampleCode
     = Inr (32, [\<lparr>startAddr = 0, insnCount = 2, handlerOff = 1\<rparr>])"
  by (simp add: swapTriesAndCatches_def ex_ptrs ex_state ex_leb1 ex_handlers ex_len ex_try
      checkListSize_def checkPtrRange_def sizeofDexTry_def swapTry_def SWAP2_def SWAP4_def
      word_le_nat_alt word_less_nat_alt Let_def ex_fields)

lemma example_code_run:
  "swapCodeItem False exampleCodeState 0
     = Inr (32, exampleCode, [0, 14], [\<lparr>startAddr = 0, insnCount = 2, handlerOff = 1\<rparr>])"
proof -
  have i: "map (\<lambda>i. SWAP2 False (hostU2 False (take 2 (drop (16 + 2 * i) exampleCodeBytes))))
             [0 ..< 2] = [0, 14]"
    by (simp add: SWAP2_def hostU2_def exampleCodeBytes_def upt_rec)
  have c: "dc_insnsSize exampleCode = 2" "dc_triesSize exampleCode \<noteq> 0"
    by (simp_all add: exampleCode_def)
  show ?thesis
    by (simp add: swapCodeItem_def ex_state ex_len ex_code ex_tries i c checkListSize_def
        checkPtrRange_def sizeofDexCode_def insnsOffset_def)
qed

lemma example_code_tries: "dc_triesSize exampleCode \<noteq> 0"
  by (simp add: exampleCode_def)

text \<open>
  C3. A code item with tries that \<open>swapCodeItem\<close> accepts has a handlers count strictly
  between 0 and 65536 and that many handler entries; in every handler entry each type
  index is below the size of the type table and each catch address, the catch-all
  address included, is below the instruction count; and every try starts at or after
  the end of the try before it and below the instruction count, ends (start address
  plus instruction count, which does not wrap) at or below the instruction count, and
  names a handler offset that is one of the offsets of the handler entries. So
  verification fails unless all of this holds.
\<close>

theorem code_item_tries_and_catches:
  assumes ok: "swapCodeItem be state ptr = Inr (p', item, insns, tries)"
    and nz: "dc_triesSize item \<noteq> 0"
  shows "item = swapCode be (codeAt be (fileStart state) ptr)
    \<and> (\<exists>handlersSize encodedPtr.
      readAndVerifyUnsignedLeb128 (fileStart state) (dexGetCatchHandlerData ptr item)
          (unat (fileLen state)) = Inr (handlersSize, encodedPtr, True)
      \<and> 0 < handlersSize \<and> handlersSize < 65536
      \<and> length (handlerEntries (fileStart state) (unat (fileLen state))
            (dexGetCatchHandlerData ptr item) (unat handlersSize)
            (of_nat (encodedPtr - dexGetCatchHandlerData ptr item))) = unat handlersSize
      \<and> list_all (handlerOk (typeIdsSize (pHeader state)) (dc_insnsSize item))
            (handlerEntries (fileStart state) (unat (fileLen state))
              (dexGetCatchHandlerData ptr item) (unat handlersSize)
              (of_nat (encodedPtr - dexGetCatchHandlerData ptr item)))
      \<and> tries = map (\<lambda>i. swapTry be (tryAt be (fileStart state)
                                (dexGetTries ptr item + sizeofDexTry * i)))
                    [0 ..< unat (dc_triesSize item)]
      \<and> triesInOrder (unat (dc_insnsSize item))
            (map he_offset (handlerEntries (fileStart state) (unat (fileLen state))
              (dexGetCatchHandlerData ptr item) (unat handlersSize)
              (of_nat (encodedPtr - dexGetCatchHandlerData ptr item)))) 0 tries)"
proof -
  define c where "c = swapCode be (codeAt be (fileStart state) ptr)"
  from ok have cl: "checkListSize state (ptr + insnsOffset) (dc_insnsSize c) 2"
    unfolding swapCodeItem_def Let_def c_def[symmetric] by (simp split: if_splits)
  then have nw: "unat (dc_insnsSize c) < 2 ^ 31" by (simp add: checkListSize_def)
  from ok have it: "item = c"
    unfolding swapCodeItem_def Let_def c_def[symmetric]
    by (auto simp: bindE_Inr split: if_splits)
  from ok nz it obtain u where
    "bindE (swapTriesAndCatches be state ptr c) (\<lambda>(p', tries).
         Inr (p', c, map (\<lambda>i. SWAP2 be (hostU2 be
                   (take 2 (drop (ptr + insnsOffset + 2 * i) (fileStart state)))))
                   [0 ..< unat (dc_insnsSize c)], tries)) = Inr (p', item, insns, tries)"
    unfolding swapCodeItem_def Let_def c_def[symmetric]
    by (auto simp: bindE_Inr split: if_splits)
  then have "swapTriesAndCatches be state ptr c = Inr (p', tries)"
    by (cases "swapTriesAndCatches be state ptr c") auto
  from swapTriesAndCatches_ok[OF this nw] it show ?thesis by (simp add: c_def)
qed

theorem code_item_tries_and_catches_witness:
  "swapCodeItem False exampleCodeState 0
     = Inr (32, exampleCode, [0, 14], [\<lparr>startAddr = 0, insnCount = 2, handlerOff = 1\<rparr>])
   \<and> dc_triesSize exampleCode \<noteq> 0
   \<and> (\<exists>handlersSize encodedPtr.
        readAndVerifyUnsignedLeb128 (fileStart exampleCodeState)
            (dexGetCatchHandlerData 0 exampleCode) (unat (fileLen exampleCodeState))
          = Inr (handlersSize, encodedPtr, True)
        \<and> 0 < handlersSize \<and> handlersSize < 65536
        \<and> list_all (handlerOk (typeIdsSize (pHeader exampleCodeState))
                       (dc_insnsSize exampleCode))
              (handlerEntries (fileStart exampleCodeState) (unat (fileLen exampleCodeState))
                (dexGetCatchHandlerData 0 exampleCode) (unat handlersSize)
                (of_nat (encodedPtr - dexGetCatchHandlerData 0 exampleCode)))
        \<and> triesInOrder (unat (dc_insnsSize exampleCode))
              (map he_offset
                (handlerEntries (fileStart exampleCodeState) (unat (fileLen exampleCodeState))
                  (dexGetCatchHandlerData 0 exampleCode) (unat handlersSize)
                  (of_nat (encodedPtr - dexGetCatchHandlerData 0 exampleCode))))
              0 [\<lparr>startAddr = 0, insnCount = 2, handlerOff = 1\<rparr>])"
proof -
  note t = code_item_tries_and_catches [OF example_code_run example_code_tries]
  from t obtain handlersSize encodedPtr where
    "readAndVerifyUnsignedLeb128 (fileStart exampleCodeState)
            (dexGetCatchHandlerData 0 exampleCode) (unat (fileLen exampleCodeState))
          = Inr (handlersSize, encodedPtr, True)
        \<and> 0 < handlersSize \<and> handlersSize < 65536
        \<and> list_all (handlerOk (typeIdsSize (pHeader exampleCodeState))
                       (dc_insnsSize exampleCode))
              (handlerEntries (fileStart exampleCodeState) (unat (fileLen exampleCodeState))
                (dexGetCatchHandlerData 0 exampleCode) (unat handlersSize)
                (of_nat (encodedPtr - dexGetCatchHandlerData 0 exampleCode)))
        \<and> triesInOrder (unat (dc_insnsSize exampleCode))
              (map he_offset
                (handlerEntries (fileStart exampleCodeState) (unat (fileLen exampleCodeState))
                  (dexGetCatchHandlerData 0 exampleCode) (unat handlersSize)
                  (of_nat (encodedPtr - dexGetCatchHandlerData 0 exampleCode))))
              0 [\<lparr>startAddr = 0, insnCount = 2, handlerOff = 1\<rparr>]"
    by blast
  then show ?thesis using example_code_run example_code_tries by blast
qed

section \<open>The first checks of dexFixByteOrdering\<close>

lemma huge_len: "length hugeSizeHeader = 112" by (simp add: hugeSizeHeader_def)

lemma huge_magic: "memcmp4 hugeSizeHeader 0 DEX_MAGIC = Inr False"
  "memcmp4 hugeSizeHeader 4 DEX_MAGIC_VERS = Inr False"
  by (simp_all add: memcmp4_def DEX_MAGIC_def DEX_MAGIC_VERS_def hugeSizeHeader_def)

lemma huge_size: "readU4 False hugeSizeHeader 32 = Inr 0x80000000"
  by (simp add: readU4_def hostU4_def hugeSizeHeader_def)

lemma huge_sum: "readU4 False hugeSizeHeader 8 = Inr 0"
  by (simp add: readU4_def hostU4_def hugeSizeHeader_def)

lemma huge_sint: "sint (0x80000000 :: u4) = - 2147483648" by simp

lemma huge_unat: "unat (0x80000000 - 12 :: u4) = 2147483636" by simp

text \<open>
  C1. \<open>dexFixByteOrdering\<close> checks the magic number and version, then the length, then the
  checksum. The length check compares \<open>len\<close> with the declared file size converted to
  \<open>int\<close>, so a declared size of \<open>0x80000000\<close> or more is read as a negative number: for the
  buffer \<open>hugeSizeHeader\<close> of 112 bytes, whose declared size \<open>0x80000000\<close> is greater than
  its length, the length check does not fail with \<open>Bad length\<close>; the checksum is then
  taken over the declared size less 12 bytes, which reads outside the buffer.
\<close>

theorem declared_size_read_as_signed:
  "readU4 False hugeSizeHeader 32 = Inr 0x80000000
   \<and> int (length hugeSizeHeader) < uint (0x80000000 :: u4)
   \<and> dexCheckMagicLengthChecksum False hugeSizeHeader (int (length hugeSizeHeader))
       = Inl ReadOutsideBuffer
   \<and> dexFixByteOrdering False allocates visit crossVisit hugeSizeHeader
         (int (length hugeSizeHeader)) = Inl ReadOutsideBuffer"
proof -
  have c: "dexCheckMagicLengthChecksum False hugeSizeHeader 112 = Inl ReadOutsideBuffer"
    by (simp add: dexCheckMagicLengthChecksum_def huge_magic huge_size huge_sum huge_len
        SWAP4_def)
  show ?thesis
    by (simp add: huge_size huge_len c dexFixByteOrdering_def)
qed

section \<open>The map\<close>

lemmas kDexTypes = kDexTypeHeaderItem_def kDexTypeStringIdItem_def kDexTypeTypeIdItem_def
  kDexTypeProtoIdItem_def kDexTypeFieldIdItem_def kDexTypeMethodIdItem_def
  kDexTypeClassDefItem_def kDexTypeMapList_def kDexTypeTypeList_def
  kDexTypeAnnotationSetRefList_def kDexTypeAnnotationSetItem_def kDexTypeClassDataItem_def
  kDexTypeCodeItem_def kDexTypeStringDataItem_def kDexTypeDebugInfoItem_def
  kDexTypeAnnotationItem_def kDexTypeEncodedArrayItem_def
  kDexTypeAnnotationsDirectoryItem_def

lemma or_and_zero:
  fixes used b b' :: u4
  assumes "(used OR b) AND b' = 0"
  shows "used AND b' = 0" "b AND b' = 0"
proof -
  have "(used OR b) AND b' = (used AND b') OR (b AND b')"
    by (simp add: bit.conj_disj_distrib2)
  with assms have "(used AND b') OR (b AND b') = 0" by simp
  then show "used AND b' = 0" "b AND b' = 0" by (simp_all add: or_eq_0_iff)
qed

lemma swapMapItems_ok:
  "swapMapItems be hdr raws first lastOffset left cnt used = Inr (items, c, u) \<Longrightarrow>
     items = map (swapMapItem be) raws
     \<and> sorted_wrt (<) (map mi_offset items)
     \<and> (\<not> first \<longrightarrow> (\<forall>it\<in>set items. lastOffset < mi_offset it))
     \<and> (\<forall>it\<in>set items. mi_offset it < fileSize hdr)
     \<and> (\<forall>it\<in>set items. itemBit it \<noteq> 0 \<and> used AND itemBit it = 0)
     \<and> distinct (map itemBit items)
     \<and> dataItems items \<le> unat left"
proof (induction raws arbitrary: first lastOffset left cnt used items c u)
  case Nil
  then show ?case by (simp add: dataItems_def)
next
  case (Cons raw rest)
  define item where "item = swapMapItem be raw"
  from Cons.prems obtain left' cnt' rest' where
        o1: "first \<or> lastOffset < mi_offset item"
    and o2: "mi_offset item < fileSize hdr"
    and d: "(if isDataSectionType (uint (mi_type item)) then
             (if left < mi_size item then Inl UnrealisticallyManyItems
              else Inr (left - mi_size item, cnt + mi_size item))
           else Inr (left, cnt)) = Inr (left', cnt')"
    and b1: "itemBit item \<noteq> 0" and b2: "used AND itemBit item = 0"
    and r: "swapMapItems be hdr rest False (mi_offset item) left' cnt' (used OR itemBit item) = Inr (rest', c, u)"
    and it: "items = item # rest'"
    by (auto simp: Let_def bindE_def item_def[symmetric] itemBit_def not_le split: if_splits sum.splits prod.splits)
  note ih = Cons.IH[OF r]
  from ih have rest': "rest' = map (swapMapItem be) rest" by blast
  from ih have after: "\<forall>x\<in>set rest'. mi_offset item < mi_offset x" by blast
  from ih have srt: "sorted_wrt (<) (map mi_offset rest')" and fs: "\<forall>it\<in>set rest'. mi_offset it < fileSize hdr"
    and dis: "distinct (map itemBit rest')" by blast+
  have bits: "\<forall>x\<in>set rest'. itemBit x \<noteq> 0 \<and> used AND itemBit x = 0 \<and> itemBit item AND itemBit x = 0"
    using ih or_and_zero by blast
  have nin: "itemBit item \<notin> itemBit ` set rest'"
  proof
    assume "itemBit item \<in> itemBit ` set rest'"
    then obtain x where x: "x \<in> set rest'" "itemBit x = itemBit item" by auto
    with bits have "itemBit item AND itemBit item = 0" by metis
    with b1 show False by simp
  qed
  have dl: "dataItems rest' \<le> unat left'" using ih by blast
  have sum: "dataItems (item # rest') \<le> unat left"
  proof (cases "isDataSectionType (uint (mi_type item))")
    case True
    with d have le: "mi_size item \<le> left" and l': "left' = left - mi_size item"
      by (auto split: if_splits)
    from le have "unat left' = unat left - unat (mi_size item)"
      by (simp add: l' unat_sub)
    moreover from le have "unat (mi_size item) \<le> unat left" by (simp add: word_le_nat_alt)
    ultimately show ?thesis using dl True by (simp add: dataItems_def)
  next
    case False
    with d have "left' = left" by simp
    with dl False show ?thesis by (simp add: dataItems_def)
  qed
  have lo: "\<not> first \<longrightarrow> (\<forall>x\<in>set (item # rest'). lastOffset < mi_offset x)"
    using o1 after by auto
  show ?case
    unfolding it using rest' srt fs dis after o2 b1 b2 bits nin sum lo
    by (simp add: item_def image_image)
qed


lemma distinct_types:
  assumes "distinct (map itemBit items)"
  shows "distinct (map mi_type items)"
proof -
  have "map itemBit items = map (\<lambda>t. mapTypeToBitMask (uint t)) (map mi_type items)"
    by (simp add: itemBit_def)
  with assms show ?thesis by (metis distinct_map)
qed

lemma swapMap_accepts:
  assumes "swapMap be allocates state mapPtr pMap = Inr r"
    and "entries = map (swapMapItem be) (take (unat (SWAP4 be (ml_size pMap))) (ml_list pMap))"
  shows "sorted_wrt (<) (map mi_offset entries)
     \<and> (\<forall>it\<in>set entries. mi_offset it < fileSize (pHeader state))
     \<and> (\<forall>it\<in>set entries. mapTypeToBitMask (uint (mi_type it)) \<noteq> 0)
     \<and> distinct (map mi_type entries)
     \<and> dataItems entries \<le> unat (dataSize (pHeader state))"
proof -
  let ?count = "SWAP4 be (ml_size pMap)"
  from assms(1) obtain x where
    "swapMapItems be (pHeader state) (take (unat ?count) (ml_list pMap)) True 0
        (dataSize (pHeader state)) 0 0 = Inr x"
    unfolding swapMap_def Let_def
    by (cases "swapMapItems be (pHeader state) (take (unat ?count) (ml_list pMap)) True 0
        (dataSize (pHeader state)) 0 0") (simp_all split: if_splits)
  moreover obtain items c u where "x = (items, c, u)" by (cases x)
  ultimately have "swapMapItems be (pHeader state) (take (unat ?count) (ml_list pMap)) True 0
        (dataSize (pHeader state)) 0 0 = Inr (items, c, u)" by simp
  note ok = swapMapItems_ok[OF this]
  from ok have e: "items = entries" using assms(2) by blast
  from ok distinct_types have "distinct (map mi_type items)" by blast
  with ok show ?thesis unfolding e[symmetric] itemBit_def by blast
qed


lemma mapTypeToBitMask_0:
  "mapTypeToBitMask t = 0 \<longleftrightarrow>
     t \<notin> {kDexTypeHeaderItem, kDexTypeStringIdItem, kDexTypeTypeIdItem, kDexTypeProtoIdItem,
          kDexTypeFieldIdItem, kDexTypeMethodIdItem, kDexTypeClassDefItem, kDexTypeMapList,
          kDexTypeTypeList, kDexTypeAnnotationSetRefList, kDexTypeAnnotationSetItem,
          kDexTypeClassDataItem, kDexTypeCodeItem, kDexTypeStringDataItem,
          kDexTypeDebugInfoItem, kDexTypeAnnotationItem, kDexTypeEncodedArrayItem,
          kDexTypeAnnotationsDirectoryItem}"
  by (simp add: mapTypeToBitMask_def)

lemma dm_len: "length disorderedMapDex = 140" by (simp add: disorderedMapDex_def)

lemma dm_magic: "memcmp4 disorderedMapDex 0 DEX_MAGIC = Inr False"
  "memcmp4 disorderedMapDex 4 DEX_MAGIC_VERS = Inr False"
  by (simp_all add: memcmp4_def DEX_MAGIC_def DEX_MAGIC_VERS_def disorderedMapDex_def)

lemma dm_size: "readU4 False disorderedMapDex 32 = Inr 140"
  by (simp add: readU4_def hostU4_def disorderedMapDex_def)

lemma dm_sum: "readU4 False disorderedMapDex 8 = Inr 355402641"
  by (simp add: readU4_def hostU4_def disorderedMapDex_def)

lemma dm_adler: "adler32 1 (drop 12 disorderedMapDex) = 355402641"
  by (simp add: adler32_def disorderedMapDex_def)

lemma dm_check: "dexCheckMagicLengthChecksum False disorderedMapDex 140 = Inr ()"
  by (simp add: dexCheckMagicLengthChecksum_def dm_magic dm_size dm_sum dm_len dm_adler
      SWAP4_def)

lemma dm_fields:
  "endianTag (headerAt False disorderedMapDex) = 0x12345678"
  "linkOff (headerAt False disorderedMapDex) = 0"
  "linkSize (headerAt False disorderedMapDex) = 0"
  "dataOff (headerAt False disorderedMapDex) = 0x70"
  "dataSize (headerAt False disorderedMapDex) = 28"
  "headerSize (headerAt False disorderedMapDex) = 0x70"
  "mapOff (headerAt False disorderedMapDex) = 0x70"
  "fileSize (headerAt False disorderedMapDex) = 140"
  by (simp_all add: headerAt_def hostU4_def disorderedMapDex_def)

lemma dm_header:
  "swapDexHeader False (initialCheckState False disorderedMapDex 140)
     (headerAt False disorderedMapDex) = Inr (headerAt False disorderedMapDex)"
  by (simp add: swapDexHeader_def SWAP4_def dm_fields kDexEndianConstant_def checkPtrRange_def
      initialCheckState_def sizeofDexHeader_def)

lemma dm_map: "mapListAt False disorderedMapDex 112 = Inr disorderedMap"
  by (simp add: mapListAt_def readU4_def mapItemAt_def hostU4_def hostU2_def dm_len
      sizeofDexMapItem_def disorderedMap_def disorderedMapDex_def upt_rec)

lemma dm_entries:
  "map (swapMapItem False) (take (unat (SWAP4 False (ml_size disorderedMap)))
     (ml_list disorderedMap)) = ml_list disorderedMap"
  by (simp add: swapMapItem_def SWAP4_def SWAP2_def disorderedMap_def)

lemma dm_swapMap:
  "swapMap False (\<lambda>n. True)
     ((initialCheckState False disorderedMapDex 140)\<lparr>pHeader := headerAt False disorderedMapDex\<rparr>)
     112 disorderedMap = Inl OutOfOrderMapItem"
  by (simp add: swapMap_def checkListSize_def checkPtrRange_def initialCheckState_def
      sizeofDexMapItem_def SWAP4_def SWAP2_def swapMapItem_def disorderedMap_def dm_fields
      isDataSectionType_def mapTypeToBitMask_def kDexTypes)

text \<open>
  C2. \<open>swapMap\<close> fails whenever the entries of the map, as swapped, are not strictly
  ascending by offset, or one of them has an offset that is not below the declared file
  size, or a type that is not one of the known types, or two of them have the same type,
  or the entries of data-section types declare more items together than the header's
  data size. \<open>dexFixByteOrdering\<close>, when it reaches \<open>swapMap\<close> with this state and map, then
  fails with the same error whatever the item visitors are: no item is visited.
\<close>

theorem swapMap_rejects:
  assumes "entries = map (swapMapItem be) (take (unat (SWAP4 be (ml_size pMap))) (ml_list pMap))"
    and "\<not> sorted_wrt (<) (map mi_offset entries)
         \<or> (\<exists>it\<in>set entries. fileSize (pHeader state) \<le> mi_offset it)
         \<or> (\<exists>it\<in>set entries. uint (mi_type it) \<notin>
               {kDexTypeHeaderItem, kDexTypeStringIdItem, kDexTypeTypeIdItem,
                kDexTypeProtoIdItem, kDexTypeFieldIdItem, kDexTypeMethodIdItem,
                kDexTypeClassDefItem, kDexTypeMapList, kDexTypeTypeList,
                kDexTypeAnnotationSetRefList, kDexTypeAnnotationSetItem,
                kDexTypeClassDataItem, kDexTypeCodeItem, kDexTypeStringDataItem,
                kDexTypeDebugInfoItem, kDexTypeAnnotationItem, kDexTypeEncodedArrayItem,
                kDexTypeAnnotationsDirectoryItem})
         \<or> \<not> distinct (map mi_type entries)
         \<or> unat (dataSize (pHeader state)) < dataItems entries"
  shows "\<exists>e. swapMap be allocates state mapPtr pMap = Inl e
           \<and> (\<forall>addr len hdr visit crossVisit.
                 dexCheckMagicLengthChecksum be addr len = Inr ()
                 \<and> swapDexHeader be (initialCheckState be addr len) (headerAt be addr) = Inr hdr
                 \<and> of_nat sizeofDexHeader \<le> headerSize hdr \<and> mapOff hdr \<noteq> 0
                 \<and> mapListAt be addr (unat (mapOff hdr)) = Inr pMap
                 \<and> state = (initialCheckState be addr len)\<lparr>pHeader := hdr\<rparr>
                 \<and> mapPtr = unat (mapOff hdr)
                 \<longrightarrow> dexFixByteOrdering be allocates visit crossVisit addr len = Inl e)"
proof (cases "swapMap be allocates state mapPtr pMap")
  case (Inl e)
  have "dexFixByteOrdering be allocates visit crossVisit addr len = Inl e"
    if "dexCheckMagicLengthChecksum be addr len = Inr ()"
      and "swapDexHeader be (initialCheckState be addr len) (headerAt be addr) = Inr hdr"
      and "of_nat sizeofDexHeader \<le> headerSize hdr" and "mapOff hdr \<noteq> 0"
      and "mapListAt be addr (unat (mapOff hdr)) = Inr pMap"
      and "state = (initialCheckState be addr len)\<lparr>pHeader := hdr\<rparr>"
      and "mapPtr = unat (mapOff hdr)"
    for addr len hdr visit crossVisit
    using that Inl by (simp add: dexFixByteOrdering_def Let_def not_less[symmetric])
  with Inl show ?thesis by blast
next
  case (Inr r)
  from swapMap_accepts[OF Inr assms(1)] assms(2) show ?thesis
    by (auto simp: not_le not_less mapTypeToBitMask_0)
qed

theorem swapMap_rejects_witness:
  "mapListAt False disorderedMapDex 112 = Inr disorderedMap
   \<and> \<not> sorted_wrt (<) (map mi_offset (map (swapMapItem False)
          (take (unat (SWAP4 False (ml_size disorderedMap))) (ml_list disorderedMap))))
   \<and> swapMap False (\<lambda>n. True)
        ((initialCheckState False disorderedMapDex 140)
           \<lparr>pHeader := headerAt False disorderedMapDex\<rparr>)
        112 disorderedMap = Inl OutOfOrderMapItem
   \<and> (\<forall>visit crossVisit.
        dexFixByteOrdering False (\<lambda>n. True) visit crossVisit disorderedMapDex 140
          = Inl OutOfOrderMapItem)"
proof -
  let ?state = "(initialCheckState False disorderedMapDex 140)
                  \<lparr>pHeader := headerAt False disorderedMapDex\<rparr>"
  have d: "\<not> sorted_wrt (<) (map mi_offset (map (swapMapItem False)
          (take (unat (SWAP4 False (ml_size disorderedMap))) (ml_list disorderedMap))))"
    unfolding dm_entries by (simp add: disorderedMap_def)
  from swapMap_rejects [where be = False and pMap = disorderedMap and state = ?state
      and allocates = "\<lambda>n. True" and mapPtr = 112, OF refl disjI1, OF d]
  obtain e where e: "swapMap False (\<lambda>n. True) ?state 112 disorderedMap = Inl e"
    and all: "\<And>addr len hdr visit crossVisit.
       dexCheckMagicLengthChecksum False addr len = Inr ()
       \<and> swapDexHeader False (initialCheckState False addr len) (headerAt False addr) = Inr hdr
       \<and> of_nat sizeofDexHeader \<le> headerSize hdr \<and> mapOff hdr \<noteq> 0
       \<and> mapListAt False addr (unat (mapOff hdr)) = Inr disorderedMap
       \<and> ?state = (initialCheckState False addr len)\<lparr>pHeader := hdr\<rparr>
       \<and> 112 = unat (mapOff hdr)
       \<Longrightarrow> dexFixByteOrdering False (\<lambda>n. True) visit crossVisit addr len = Inl e"
    by blast
  from e have e': "e = OutOfOrderMapItem" by (simp add: dm_swapMap)
  have "dexFixByteOrdering False (\<lambda>n. True) visit crossVisit disorderedMapDex 140
          = Inl OutOfOrderMapItem" for visit crossVisit
    using all [of disorderedMapDex 140 "headerAt False disorderedMapDex" visit crossVisit]
    by (simp add: e' dm_check dm_header dm_fields dm_map sizeofDexHeader_def)
  with d dm_map dm_swapMap show ?thesis by blast
qed

section \<open>Padding between the items of a section\<close>







































end
